theory Spec2Isabelle
  imports Main "HOL-Library.Word"
begin

section \<open>Data model\<close>

text \<open>
  Versions are Go \<^verbatim>\<open>uint64\<close> values: 64-bit words, on which \<open>+\<close> wraps around.
  Go functions that return a value together with an \<^verbatim>\<open>error\<close> are modelled as
  returning a pair; a \<^verbatim>\<open>nil\<close> error is \<open>None\<close>. Methods that mutate their
  receiver return the updated receiver as the last component of the result.
\<close>

type_synonym u64 = "64 word"

text \<open>\<^verbatim>\<open>client.Operation\<close> and \<^verbatim>\<open>client.LogPayload\<close>.\<close>

record Operation =
  M :: string
  D :: string

record LogPayload =
  Version :: u64
  Op :: Operation

definition NewOperation :: Operation where
  "NewOperation = \<lparr>M = [], D = []\<rparr>"

text \<open>The zero value of a \<^verbatim>\<open>LogPayload\<close> (\<^verbatim>\<open>var p client.LogPayload\<close>).\<close>

definition zero_LogPayload :: LogPayload where
  "zero_LogPayload = \<lparr>Version = 0, Op = NewOperation\<rparr>"

text \<open>
  Go \<^verbatim>\<open>error\<close> values other than \<^verbatim>\<open>LogError\<close>: the sentinel
  \<^verbatim>\<open>lm2log.ErrNotFound\<close>, errors made by \<^verbatim>\<open>errors.New\<close> or raised by a library
  (carried as their message), \<^verbatim>\<open>client.ServerError\<close> with its status code, and a
  \<^verbatim>\<open>client.APIResponse\<close> used as an error.
\<close>

datatype error =
    ErrNotFound
  | ErrorString string
  | ServerError int
  | APIResponseError string

record LogError =
  Type :: string
  StatusCode :: int
  Err :: "error option"

abbreviation StatusBadRequest :: int where "StatusBadRequest \<equiv> 400"
abbreviation StatusNotFound :: int where "StatusNotFound \<equiv> 404"
abbreviation StatusInternalServerError :: int where "StatusInternalServerError \<equiv> 500"
abbreviation StatusServiceUnavailable :: int where "StatusServiceUnavailable \<equiv> 503"

text \<open>
  The \<^verbatim>\<open>Service\<close> interface. Its implementation is supplied by the user, so the
  four methods are parameters; each may change the service's own state \<open>'s\<close>.
\<close>

record 's Service =
  Validate :: "Operation \<Rightarrow> 's \<Rightarrow> error option \<times> 's"
  Apply :: "u64 \<Rightarrow> Operation \<Rightarrow> 's \<Rightarrow> error option \<times> 's"
  LockResources :: "Operation \<Rightarrow> 's \<Rightarrow> bool \<times> 's"
  UnlockResources :: "Operation \<Rightarrow> 's \<Rightarrow> 's"

text \<open>
  \<^verbatim>\<open>encoding/json\<close> is a library: \<^verbatim>\<open>json.Marshal\<close> of an operation,
  \<^verbatim>\<open>json.Unmarshal\<close> into an operation and the decoding of a request body into a
  payload are parameters.
\<close>

record json =
  Marshal :: "Operation \<Rightarrow> error + string"
  Unmarshal :: "string \<Rightarrow> error + Operation"
  DecodePayload :: "string \<Rightarrow> error + LogPayload"

section \<open>The log store\<close>

text \<open>
  Modelled from the spec: the package \<^verbatim>\<open>lm2log\<close> (only its tests are among the
  sources). Its state is the one of the spec's data model: the records by version, the
  highest committed version (0 when nothing is committed) and the prepared version, if
  any. \<^verbatim>\<open>Prepare\<close> writes the record of version \<open>committed + 1\<close> and needs that no
  record is prepared; \<^verbatim>\<open>Commit\<close> promotes the prepared record and clears it, and does
  nothing when none is prepared; \<^verbatim>\<open>Rollback\<close> clears the prepared record and deletes
  it, and does nothing when none is prepared; \<^verbatim>\<open>Get\<close> returns the record or
  not-found; \<^verbatim>\<open>Compact\<close> drops the records of version \<open>\<le> committed - keep\<close>.
  Input and output failures of the store are outside the model.
\<close>

record lm2log =
  records :: "u64 \<rightharpoonup> string"
  committed :: u64
  prepared :: "u64 option"

definition lm2log_New :: lm2log where
  "lm2log_New = \<lparr>records = Map.empty, committed = 0, prepared = None\<rparr>"

definition lm2log_Prepared :: "lm2log \<Rightarrow> u64 \<times> error option" where
  "lm2log_Prepared s =
     (case prepared s of None \<Rightarrow> (0, Some ErrNotFound) | Some v \<Rightarrow> (v, None))"

definition lm2log_Committed :: "lm2log \<Rightarrow> u64 \<times> error option" where
  "lm2log_Committed s = (committed s, None)"

definition lm2log_Get :: "u64 \<Rightarrow> lm2log \<Rightarrow> string \<times> error option" where
  "lm2log_Get v s =
     (case records s v of None \<Rightarrow> ([], Some ErrNotFound) | Some data \<Rightarrow> (data, None))"

definition lm2log_Prepare :: "string \<Rightarrow> lm2log \<Rightarrow> error option \<times> lm2log" where
  "lm2log_Prepare data s =
     (case prepared s of
        Some v \<Rightarrow> (Some (ErrorString ''lm2log: already prepared''), s)
      | None \<Rightarrow>
          (None, s\<lparr>records := (records s)(committed s + 1 \<mapsto> data),
                    prepared := Some (committed s + 1)\<rparr>))"

definition lm2log_Commit :: "lm2log \<Rightarrow> error option \<times> lm2log" where
  "lm2log_Commit s =
     (case prepared s of
        None \<Rightarrow> (None, s)
      | Some v \<Rightarrow> (None, s\<lparr>committed := v, prepared := None\<rparr>))"

definition lm2log_Rollback :: "lm2log \<Rightarrow> error option \<times> lm2log" where
  "lm2log_Rollback s =
     (case prepared s of
        None \<Rightarrow> (None, s)
      | Some v \<Rightarrow> (None, s\<lparr>records := (records s)(v := None), prepared := None\<rparr>))"

definition lm2log_Compact :: "nat \<Rightarrow> lm2log \<Rightarrow> error option \<times> lm2log" where
  "lm2log_Compact keep s =
     (None, s\<lparr>records :=
                (\<lambda>v. if unat v + keep \<le> unat (committed s) then None else records s v)\<rparr>)"

section \<open>The commit log\<close>

text \<open>
  \<^verbatim>\<open>Log\<close>: the service (its methods and its state), the \<^verbatim>\<open>applyCommits\<close> flag and
  the store. The mutex is not modelled: every method runs to its end under it. The field
  \<open>applied\<close> is a history variable, not a field of the source: it lists, in order,
  the arguments of every call of \<^verbatim>\<open>service.Apply\<close> that the log has made.
\<close>

record 's Log =
  service :: "'s Service"
  service_state :: 's
  applyCommits :: bool
  commitLog :: lm2log
  applied :: "(u64 \<times> Operation) list"

definition internal :: "error option \<Rightarrow> int \<Rightarrow> LogError" where
  "internal err code = \<lparr>Type = ''internal'', StatusCode = code, Err = err\<rparr>"

text \<open>
  \<^verbatim>\<open>NewLog\<close>, given what \<^verbatim>\<open>lm2log.Open\<close> finds on disk: \<open>None\<close> stands for
  \<^verbatim>\<open>ErrDoesNotExist\<close>, after which a new store is made.
\<close>

definition NewLog :: "lm2log option \<Rightarrow> 's Service \<Rightarrow> 's \<Rightarrow> bool \<Rightarrow> 's Log" where
  "NewLog on_disk svc st apply_commits =
     \<lparr>service = svc, service_state = st, applyCommits = apply_commits,
      commitLog = (case on_disk of None \<Rightarrow> lm2log_New | Some c \<Rightarrow> c),
      applied = []\<rparr>"

definition Log_Prepared :: "json \<Rightarrow> 's Log \<Rightarrow> LogPayload \<times> LogError option" where
  "Log_Prepared J l =
     (case lm2log_Prepared (commitLog l) of
        (preparedVersion, Some err) \<Rightarrow>
          if err = ErrNotFound
          then (zero_LogPayload, Some (internal (Some err) StatusNotFound))
          else (zero_LogPayload, Some (internal (Some err) StatusInternalServerError))
      | (preparedVersion, None) \<Rightarrow>
          (case lm2log_Get preparedVersion (commitLog l) of
             (preparedData, Some err) \<Rightarrow>
               (zero_LogPayload, Some (internal (Some err) StatusInternalServerError))
           | (preparedData, None) \<Rightarrow>
               (case Unmarshal J preparedData of
                  Inl err \<Rightarrow>
                    (zero_LogPayload, Some (internal (Some err) StatusInternalServerError))
                | Inr operation \<Rightarrow>
                    (\<lparr>Version = preparedVersion, Op = operation\<rparr>, None))))"

definition Log_Committed :: "json \<Rightarrow> 's Log \<Rightarrow> LogPayload \<times> LogError option" where
  "Log_Committed J l =
     (case lm2log_Committed (commitLog l) of
        (committedVersion, Some err) \<Rightarrow>
          (zero_LogPayload, Some (internal (Some err) StatusInternalServerError))
      | (committedVersion, None) \<Rightarrow>
          if committedVersion = 0
          then (zero_LogPayload, Some (internal None StatusNotFound))
          else
            (case lm2log_Get committedVersion (commitLog l) of
               (committedData, Some err) \<Rightarrow>
                 (zero_LogPayload, Some (internal (Some err) StatusInternalServerError))
             | (committedData, None) \<Rightarrow>
                 (case Unmarshal J committedData of
                    Inl err \<Rightarrow>
                      (zero_LogPayload, Some (internal (Some err) StatusInternalServerError))
                  | Inr operation \<Rightarrow>
                      (\<lparr>Version = committedVersion, Op = operation\<rparr>, None))))"

definition Log_Prepare :: "json \<Rightarrow> LogPayload \<Rightarrow> 's Log \<Rightarrow> LogError option \<times> 's Log" where
  "Log_Prepare J payload l =
     (case lm2log_Committed (commitLog l) of
        (committedVersion, Some err) \<Rightarrow>
          (Some (internal (Some err) StatusInternalServerError), l)
      | (committedVersion, None) \<Rightarrow>
          if Version payload \<noteq> committedVersion + 1
          then (Some (internal (Some (ErrorString ''preparing invalid version''))
                         StatusBadRequest), l)
          else
            (case Validate (service l) (Op payload) (service_state l) of
               (Some err, st) \<Rightarrow>
                 (Some (internal (Some (ErrorString ''invalid operation'')) StatusBadRequest),
                  l\<lparr>service_state := st\<rparr>)
             | (None, st) \<Rightarrow>
                 (case Marshal J (Op payload) of
                    Inl err \<Rightarrow>
                      (Some (internal (Some err) StatusInternalServerError),
                       l\<lparr>service_state := st\<rparr>)
                  | Inr data \<Rightarrow>
                      (case lm2log_Prepare data (commitLog l) of
                         (Some err, c) \<Rightarrow>
                           (Some (internal (Some err) StatusInternalServerError),
                            l\<lparr>service_state := st, commitLog := c\<rparr>)
                       | (None, c) \<Rightarrow>
                           (None, l\<lparr>service_state := st, commitLog := c\<rparr>)))))"

definition Log_Commit :: "json \<Rightarrow> 's Log \<Rightarrow> LogError option \<times> 's Log" where
  "Log_Commit J l =
     (case lm2log_Commit (commitLog l) of
        (Some err, c) \<Rightarrow>
          (Some (internal (Some err) StatusInternalServerError), l\<lparr>commitLog := c\<rparr>)
      | (None, c) \<Rightarrow>
          (case lm2log_Committed c of
             (committedVersion, Some err) \<Rightarrow>
               (Some (internal (Some err) StatusInternalServerError), l\<lparr>commitLog := c\<rparr>)
           | (committedVersion, None) \<Rightarrow>
               if committedVersion = 0 then (None, l\<lparr>commitLog := c\<rparr>)
               else
                 (case lm2log_Get committedVersion c of
                    (committedData, Some err) \<Rightarrow>
                      (Some (internal (Some err) StatusInternalServerError),
                       l\<lparr>commitLog := c\<rparr>)
                  | (committedData, None) \<Rightarrow>
                      (case Unmarshal J committedData of
                         Inl err \<Rightarrow>
                           (Some (internal (Some err) StatusInternalServerError),
                            l\<lparr>commitLog := c\<rparr>)
                       | Inr operation \<Rightarrow>
                           (case Apply (service l) committedVersion operation
                                   (service_state l) of
                              (Some err, st) \<Rightarrow>
                                (Some (internal (Some err) StatusInternalServerError),
                                 l\<lparr>commitLog := c, service_state := st,
                                   applied := applied l @ [(committedVersion, operation)]\<rparr>)
                            | (None, st) \<Rightarrow>
                                (None,
                                 l\<lparr>commitLog := c, service_state := st,
                                   applied := applied l @ [(committedVersion, operation)]\<rparr>))))))"

definition Log_Rollback :: "'s Log \<Rightarrow> LogError option \<times> 's Log" where
  "Log_Rollback l =
     (case lm2log_Rollback (commitLog l) of
        (Some err, c) \<Rightarrow>
          (Some (internal (Some err) StatusInternalServerError), l\<lparr>commitLog := c\<rparr>)
      | (None, c) \<Rightarrow> (None, l\<lparr>commitLog := c\<rparr>))"

definition Log_Record :: "json \<Rightarrow> u64 \<Rightarrow> 's Log \<Rightarrow> LogPayload \<times> LogError option" where
  "Log_Record J version l =
     (case lm2log_Get version (commitLog l) of
        (committedData, Some err) \<Rightarrow>
          (zero_LogPayload, Some (internal (Some err) StatusInternalServerError))
      | (committedData, None) \<Rightarrow>
          (case Unmarshal J committedData of
             Inl err \<Rightarrow> (zero_LogPayload, Some (internal (Some err) StatusInternalServerError))
           | Inr operation \<Rightarrow> (\<lparr>Version = version, Op = operation\<rparr>, None)))"

definition Log_LockResources :: "Operation \<Rightarrow> 's Log \<Rightarrow> LogError option \<times> 's Log" where
  "Log_LockResources o' l =
     (case LockResources (service l) o' (service_state l) of
        (locked, st) \<Rightarrow>
          if \<not> locked
          then (Some (internal (Some (ErrorString ''resource busy'')) StatusServiceUnavailable),
                l\<lparr>service_state := st\<rparr>)
          else (None, l\<lparr>service_state := st\<rparr>))"

definition Log_UnlockResources :: "Operation \<Rightarrow> 's Log \<Rightarrow> 's Log" where
  "Log_UnlockResources o' l =
     l\<lparr>service_state := UnlockResources (service l) o' (service_state l)\<rparr>"

definition Log_Compact :: "nat \<Rightarrow> 's Log \<Rightarrow> LogError option \<times> 's Log" where
  "Log_Compact recordsToKeep l =
     (case lm2log_Compact recordsToKeep (commitLog l) of
        (Some err, c) \<Rightarrow>
          (Some (internal (Some err) StatusInternalServerError), l\<lparr>commitLog := c\<rparr>)
      | (None, c) \<Rightarrow> (None, l\<lparr>commitLog := c\<rparr>))"

section \<open>The peer client\<close>

text \<open>
  A request of \<^verbatim>\<open>client.LogClient\<close>: the verb, the address and the body that
  \<^verbatim>\<open>doRequest\<close> receives (\<^verbatim>\<open>GET /prepare\<close>, \<^verbatim>\<open>POST /prepare\<close> with a payload,
  \<^verbatim>\<open>GET /commit\<close>, \<^verbatim>\<open>POST /commit\<close>, \<^verbatim>\<open>POST /rollback\<close>,
  \<^verbatim>\<open>GET /record/<version>\<close>).
\<close>

datatype request =
    GetPrepare
  | PostPrepare LogPayload
  | GetCommit
  | PostCommit
  | PostRollback
  | GetRecord u64

text \<open>\<^verbatim>\<open>client.APIResponse\<close>: the payload decoded from the response and its error text.\<close>

record APIResponse =
  Data :: LogPayload
  ErrStr :: string

text \<open>
  \<^verbatim>\<open>Client.doRequest\<close> rests on \<^verbatim>\<open>net/http\<close>. The round trip is a parameter of the
  client: from the request and the state \<open>'w\<close> of everything beyond the wire it gives
  the error returned, the response as decoded, and the new state beyond the wire.
\<close>

record 'w LogClient =
  doRequest :: "request \<Rightarrow> 'w \<Rightarrow> (error option \<times> APIResponse) \<times> 'w"


definition LogClient_Committed ::
  "'w LogClient \<Rightarrow> 'w \<Rightarrow> (LogPayload \<times> error option) \<times> 'w" where
  "LogClient_Committed c w =
     (case doRequest c GetCommit w of
        ((Some err, resp), w') \<Rightarrow>
          if err = ServerError StatusNotFound then ((Data resp, Some ErrNotFound), w')
          else ((Data resp, Some (APIResponseError (ErrStr resp))), w')
      | ((None, resp), w') \<Rightarrow> ((Data resp, None), w'))"

definition LogClient_Prepare ::
  "'w LogClient \<Rightarrow> LogPayload \<Rightarrow> 'w \<Rightarrow> error option \<times> 'w" where
  "LogClient_Prepare c payload w =
     (case doRequest c (PostPrepare payload) w of ((err, resp), w') \<Rightarrow> (err, w'))"

definition LogClient_Commit :: "'w LogClient \<Rightarrow> 'w \<Rightarrow> error option \<times> 'w" where
  "LogClient_Commit c w = (case doRequest c PostCommit w of ((err, resp), w') \<Rightarrow> (err, w'))"

definition LogClient_Rollback :: "'w LogClient \<Rightarrow> 'w \<Rightarrow> error option \<times> 'w" where
  "LogClient_Rollback c w =
     (case doRequest c PostRollback w of ((err, resp), w') \<Rightarrow> (err, w'))"


section \<open>The doer\<close>

text \<open>
  \<^verbatim>\<open>Doer\<close> (the version with \<^verbatim>\<open>peerInSync\<close>). Besides the fields of the source,
  \<open>peer_world\<close> is the state beyond the wire that the peer client talks to, and
  \<open>peer_calls\<close> is a history variable: every call of a method of \<^verbatim>\<open>d.peer\<close>, in
  order, as the request it sends and the error it returned. The doer's mutex is not
  modelled: the functions below run one at a time.
\<close>

record ('s, 'w) Doer =
  doer_commitLog :: "'s Log"
  peer :: "'w LogClient option"
  peerInSync :: bool
  errCount :: int
  peer_world :: 'w
  peer_calls :: "(request \<times> error option) list"


definition peer_Committed ::
  "'w LogClient \<Rightarrow> ('s, 'w) Doer \<Rightarrow> (LogPayload \<times> error option) \<times> ('s, 'w) Doer" where
  "peer_Committed c d =
     (case LogClient_Committed c (peer_world d) of
        ((p, err), w) \<Rightarrow>
          ((p, err), d\<lparr>peer_world := w, peer_calls := peer_calls d @ [(GetCommit, err)]\<rparr>))"

definition peer_Prepare ::
  "'w LogClient \<Rightarrow> LogPayload \<Rightarrow> ('s, 'w) Doer \<Rightarrow> error option \<times> ('s, 'w) Doer" where
  "peer_Prepare c payload d =
     (case LogClient_Prepare c payload (peer_world d) of
        (err, w) \<Rightarrow>
          (err, d\<lparr>peer_world := w,
                  peer_calls := peer_calls d @ [(PostPrepare payload, err)]\<rparr>))"

definition peer_Commit ::
  "'w LogClient \<Rightarrow> ('s, 'w) Doer \<Rightarrow> error option \<times> ('s, 'w) Doer" where
  "peer_Commit c d =
     (case LogClient_Commit c (peer_world d) of
        (err, w) \<Rightarrow>
          (err, d\<lparr>peer_world := w, peer_calls := peer_calls d @ [(PostCommit, err)]\<rparr>))"

definition peer_Rollback ::
  "'w LogClient \<Rightarrow> ('s, 'w) Doer \<Rightarrow> error option \<times> ('s, 'w) Doer" where
  "peer_Rollback c d =
     (case LogClient_Rollback c (peer_world d) of
        (err, w) \<Rightarrow>
          (err, d\<lparr>peer_world := w, peer_calls := peer_calls d @ [(PostRollback, err)]\<rparr>))"


text \<open>
  The loops \<^verbatim>\<open>for i := a; i != b; i++\<close> count in \<^verbatim>\<open>uint64\<close>; they end because
  \<open>b - i\<close> goes down by one at each step.
\<close>

lemma word_loop_measure:
  fixes i n :: "'a::len word"
  assumes "i \<noteq> n"
  shows "unat (n - (i + 1)) < unat (n - i)"
proof -
  from assms have "n - i \<noteq> 0" by simp
  then have "unat (n - i - 1) < unat (n - i)"
    by (simp add: unat_minus_one unat_gt_0)
  moreover have "n - (i + 1) = n - i - 1" by simp
  ultimately show ?thesis by (simp only:)
qed

subsection \<open>Startup reconciliation\<close>









subsection \<open>The write path\<close>

text \<open>
  How a call of \<^verbatim>\<open>Do\<close> ends: it returns its error (\<open>None\<close> for \<^verbatim>\<open>nil\<close>), or
  \<^verbatim>\<open>log.Fatalln\<close> ends the process.
\<close>

datatype outcome = Returns "LogError option" | Fatal

text \<open>
  The retry loops \<^verbatim>\<open>for tries := 0; tries < 3; tries++\<close>; \<open>err\<close> is the variable
  \<^verbatim>\<open>err\<close> of \<^verbatim>\<open>Do\<close>, whose last value the loop leaves behind.
\<close>

function Do_prepare_tries ::
  "'w LogClient \<Rightarrow> LogPayload \<Rightarrow> nat \<Rightarrow> error option \<Rightarrow> ('s, 'w) Doer \<Rightarrow>
     error option \<times> ('s, 'w) Doer" where
  "Do_prepare_tries c p tries err d =
     (if tries < 3 then
        (case peer_Prepare c p d of
           (Some e, d1) \<Rightarrow> Do_prepare_tries c p (tries + 1) (Some e) d1
         | (None, d1) \<Rightarrow> (None, d1))
      else (err, d))"
  by pat_completeness auto
termination
  by (relation "measure (\<lambda>(c, p, tries, err, d). 3 - tries)") simp_all

declare Do_prepare_tries.simps [simp del]

function Do_commit_tries ::
  "'w LogClient \<Rightarrow> nat \<Rightarrow> error option \<Rightarrow> ('s, 'w) Doer \<Rightarrow> error option \<times> ('s, 'w) Doer"
  where
  "Do_commit_tries c tries err d =
     (if tries < 3 then
        (case peer_Commit c d of
           (Some e, d1) \<Rightarrow> Do_commit_tries c (tries + 1) (Some e) d1
         | (None, d1) \<Rightarrow> (None, d1))
      else (err, d))"
  by pat_completeness auto
termination
  by (relation "measure (\<lambda>(c, tries, err, d). 3 - tries)") simp_all

declare Do_commit_tries.simps [simp del]

text \<open>
  The two blocks \<^verbatim>\<open>if d.peer != nil && d.peerInSync { ... }\<close> of \<^verbatim>\<open>Do\<close>: the
  retry loop, then \<^verbatim>\<open>d.peerInSync = false\<close> when \<^verbatim>\<open>err\<close> is still set. Before
  each block \<^verbatim>\<open>err\<close> is \<^verbatim>\<open>nil\<close>, since the local call before it succeeded.
\<close>

definition Do_peer_prepare :: "LogPayload \<Rightarrow> ('s, 'w) Doer \<Rightarrow> ('s, 'w) Doer" where
  "Do_peer_prepare p d =
     (case peer d of
        None \<Rightarrow> d
      | Some c \<Rightarrow>
          if peerInSync d then
            (case Do_prepare_tries c p 0 None d of
               (Some err, d1) \<Rightarrow> d1\<lparr>peerInSync := False\<rparr>
             | (None, d1) \<Rightarrow> d1)
          else d)"

definition Do_peer_commit :: "('s, 'w) Doer \<Rightarrow> ('s, 'w) Doer" where
  "Do_peer_commit d =
     (case peer d of
        None \<Rightarrow> d
      | Some c \<Rightarrow>
          if peerInSync d then
            (case Do_commit_tries c 0 None d of
               (Some err, d1) \<Rightarrow> d1\<lparr>peerInSync := False\<rparr>
             | (None, d1) \<Rightarrow> d1)
          else d)"

text \<open>
  \<^verbatim>\<open>Do\<close> from \<^verbatim>\<open>d.commitLog.Prepare(p)\<close> to its end; \<open>p\<close> already has the version
  it is prepared with.
\<close>

definition Do_write :: "json \<Rightarrow> LogPayload \<Rightarrow> ('s, 'w) Doer \<Rightarrow> outcome \<times> ('s, 'w) Doer" where
  "Do_write J p d =
     (case Log_Prepare J p (doer_commitLog d) of
        (Some err, l) \<Rightarrow> (Returns (Some err), d\<lparr>doer_commitLog := l\<rparr>)
      | (None, l) \<Rightarrow>
          (let d1 = Do_peer_prepare p (d\<lparr>doer_commitLog := l\<rparr>)
           in case Log_Commit J (doer_commitLog d1) of
                (Some err, l1) \<Rightarrow>
                  (case Log_Rollback l1 of
                     (Some rollbackErr, l2) \<Rightarrow> (Fatal, d1\<lparr>doer_commitLog := l2\<rparr>)
                   | (None, l2) \<Rightarrow> (Returns (Some err), d1\<lparr>doer_commitLog := l2\<rparr>))
              | (None, l1) \<Rightarrow> (Returns None, Do_peer_commit (d1\<lparr>doer_commitLog := l1\<rparr>))))"

text \<open>\<^verbatim>\<open>Do\<close> between taking the resources and releasing them.\<close>

definition Do_locked ::
  "json \<Rightarrow> LogPayload \<Rightarrow> bool \<Rightarrow> ('s, 'w) Doer \<Rightarrow> outcome \<times> ('s, 'w) Doer" where
  "Do_locked J p ignoreVersion d =
     (case Log_Committed J (doer_commitLog d) of
        (committedPayload, err) \<Rightarrow>
          (let rest =
             Do_write J
               (if ignoreVersion then p\<lparr>Version := Version committedPayload + 1\<rparr> else p) d
           in case err of
                None \<Rightarrow> rest
              | Some e \<Rightarrow> if Err e \<noteq> None then (Returns (Some e), d) else rest))"

text \<open>
  \<^verbatim>\<open>Do\<close>. The deferred \<^verbatim>\<open>UnlockResources\<close> runs on every return, and not when the
  process is ended.
\<close>

definition Do :: "json \<Rightarrow> LogPayload \<Rightarrow> bool \<Rightarrow> ('s, 'w) Doer \<Rightarrow> outcome \<times> ('s, 'w) Doer" where
  "Do J p ignoreVersion d =
     (case Log_LockResources (Op p) (doer_commitLog d) of
        (Some err, l) \<Rightarrow> (Returns (Some err), d\<lparr>doer_commitLog := l\<rparr>)
      | (None, l) \<Rightarrow>
          (case Do_locked J p ignoreVersion (d\<lparr>doer_commitLog := l\<rparr>) of
             (Fatal, d1) \<Rightarrow> (Fatal, d1)
           | (Returns r, d1) \<Rightarrow>
               (Returns r,
                d1\<lparr>doer_commitLog := Log_UnlockResources (Op p) (doer_commitLog d1)\<rparr>)))"

subsection \<open>The handler of \<^verbatim>\<open>POST /do\<close>\<close>

text \<open>\<^verbatim>\<open>strconv.ParseBool\<close>, which the parameter parser applies to a boolean's value.\<close>

definition ParseBool :: "string \<Rightarrow> bool option" where
  "ParseBool str =
     (if str \<in> set [''1'', ''t'', ''T'', ''TRUE'', ''true'', ''True''] then Some True
      else if str \<in> set [''0'', ''f'', ''F'', ''FALSE'', ''false'', ''False''] then Some False
      else None)"

text \<open>
  \<^verbatim>\<open>siesta.Params\<close> is a library: \<^verbatim>\<open>params.Bool(name, value, usage)\<close> declares a
  parameter with its default and \<^verbatim>\<open>params.Parse(r.Form)\<close> sets it from each value the
  form gives under that name: an empty value sets a boolean to true, any other value goes
  through \<^verbatim>\<open>strconv.ParseBool\<close>, and a value that is no boolean makes \<^verbatim>\<open>Parse\<close>
  fail. The form is the list of its name and value pairs; \<open>v\<close> is the value so far, at
  first the default.
\<close>

fun Params_Bool_Parse :: "string \<Rightarrow> bool \<Rightarrow> (string \<times> string) list \<Rightarrow> error + bool" where
  "Params_Bool_Parse name v [] = Inr v"
| "Params_Bool_Parse name v ((k, str) # form) =
     (if k = name then
        (if str = [] then Params_Bool_Parse name True form
         else case ParseBool str of
                None \<Rightarrow> Inl (ErrorString ''invalid boolean value'')
              | Some b \<Rightarrow> Params_Bool_Parse name b form)
      else Params_Bool_Parse name v form)"

text \<open>
  What the handler leaves in \<^verbatim>\<open>middleware.RequestData\<close>: the status code (0 when it
  sets none, which the response writer sends as 200) and whether it set an error text.
\<close>

record RequestData =
  ResponseStatusCode :: int
  ResponseHasError :: bool

text \<open>The part of the handler after \<^verbatim>\<open>err = d.Do(doPayload, *ignoreVersion)\<close>.\<close>

definition Handler_respond :: "outcome \<times> ('s, 'w) Doer \<Rightarrow> RequestData option \<times> ('s, 'w) Doer"
  where
  "Handler_respond r =
     (case r of
        (Fatal, d) \<Rightarrow> (None, d)
      | (Returns None, d) \<Rightarrow>
          (Some \<lparr>ResponseStatusCode = 0, ResponseHasError = False\<rparr>, d)
      | (Returns (Some logErr), d) \<Rightarrow>
          (Some \<lparr>ResponseStatusCode = StatusCode logErr, ResponseHasError = True\<rparr>, d))"

text \<open>
  The route \<^verbatim>\<open>POST /do\<close> of \<^verbatim>\<open>Doer.Handler\<close>, on the form and the body of the
  request. The result is \<open>None\<close> when the process ended before a response.
\<close>

definition Doer_Handler ::
  "json \<Rightarrow> (string \<times> string) list \<Rightarrow> string \<Rightarrow> ('s, 'w) Doer \<Rightarrow>
     RequestData option \<times> ('s, 'w) Doer" where
  "Doer_Handler J form body d =
     (case Params_Bool_Parse ''ignore-version'' True form of
        Inl err \<Rightarrow>
          (Some \<lparr>ResponseStatusCode = StatusBadRequest, ResponseHasError = True\<rparr>, d)
      | Inr ignoreVersion \<Rightarrow>
          (case DecodePayload J body of
             Inl err \<Rightarrow>
               (Some \<lparr>ResponseStatusCode = StatusBadRequest, ResponseHasError = True\<rparr>, d)
           | Inr doPayload \<Rightarrow> Handler_respond (Do J doPayload ignoreVersion d)))"

subsection \<open>The background sync loop\<close>

text \<open>
  The inner loop of \<^verbatim>\<open>syncPeer\<close>. Its \<^verbatim>\<open>continue\<close> statements stand in the inner
  \<^verbatim>\<open>for\<close>, so each of them goes on with the post statement \<^verbatim>\<open>i++\<close> of that loop.
  The result is the variable \<^verbatim>\<open>sleep\<close> at the end of the loop, and the doer.
\<close>

function syncPeer_push ::
  "json \<Rightarrow> 'w LogClient \<Rightarrow> u64 \<Rightarrow> u64 \<Rightarrow> bool \<Rightarrow> ('s, 'w) Doer \<Rightarrow> bool \<times> ('s, 'w) Doer"
  where
  "syncPeer_push J c i localCommittedVersion sleep d =
     (if i \<noteq> localCommittedVersion then
        (case Log_Record J (i + 1) (doer_commitLog d) of
           (payload, Some err) \<Rightarrow> syncPeer_push J c (i + 1) localCommittedVersion True d
         | (payload, None) \<Rightarrow>
             (case peer_Prepare c payload d of
                (Some err, d1) \<Rightarrow> syncPeer_push J c (i + 1) localCommittedVersion True d1
              | (None, d1) \<Rightarrow>
                  (case peer_Commit c d1 of
                     (Some err, d2) \<Rightarrow>
                       syncPeer_push J c (i + 1) localCommittedVersion True d2
                   | (None, d2) \<Rightarrow>
                       syncPeer_push J c (i + 1) localCommittedVersion sleep d2)))
      else (sleep, d))"
  by pat_completeness auto
termination
  by (relation "measure (\<lambda>(J, c, i, n, sleep, d). unat (n - i))")
     (simp_all add: word_loop_measure)

declare syncPeer_push.simps [simp del]

text \<open>
  One iteration of the outer loop of \<^verbatim>\<open>syncPeer\<close>, after its \<^verbatim>\<open>time.Sleep\<close>, with no
  call of \<^verbatim>\<open>Do\<close> running in between. The first component of the result is
  \<^verbatim>\<open>sleep\<close> at the end of the iteration: the next iteration starts by sleeping when it
  is set.
\<close>

definition syncPeer_iteration ::
  "json \<Rightarrow> 'w LogClient \<Rightarrow> ('s, 'w) Doer \<Rightarrow> bool \<times> ('s, 'w) Doer" where
  "syncPeer_iteration J c d =
     (if peerInSync d then (True, d)
      else
        (case peer_Rollback c d of
           (rollbackErr, d1) \<Rightarrow>
             (case peer_Committed c d1 of
                ((peerCommitted, err), d2) \<Rightarrow>
                  if err \<noteq> None \<and> err \<noteq> Some ErrNotFound then (True, d2)
                  else
                    (case Log_Committed J (doer_commitLog d2) of
                       (localCommitted, Some lerr) \<Rightarrow> (True, d2)
                     | (localCommitted, None) \<Rightarrow>
                         if Version localCommitted = Version peerCommitted
                         then (False, d2\<lparr>peerInSync := True\<rparr>)
                         else syncPeer_push J c (Version peerCommitted)
                                (Version localCommitted) False d2))))"

text \<open>
  \<^verbatim>\<open>syncPeer\<close> never returns when a peer is set; this is its state after the given
  number of iterations.
\<close>

fun syncPeer :: "json \<Rightarrow> nat \<Rightarrow> ('s, 'w) Doer \<Rightarrow> ('s, 'w) Doer" where
  "syncPeer J 0 d = d"
| "syncPeer J (Suc n) d =
     (case peer d of
        None \<Rightarrow> d
      | Some c \<Rightarrow> syncPeer J n (snd (syncPeer_iteration J c d)))"

section \<open>A peer that is another commit log\<close>

text \<open>
  \<^verbatim>\<open>fmt.Sprintf\<close> with \<^verbatim>\<open>%d\<close>, and the \<^verbatim>\<open>Error\<close> methods. The text of
  \<^verbatim>\<open>lm2log.ErrNotFound\<close> is not among the sources; nothing below depends on it.
\<close>

function decimal :: "nat \<Rightarrow> string" where
  "decimal n =
     (if n < 10 then [char_of (48 + n)]
      else decimal (n div 10) @ [char_of (48 + n mod 10)])"
  by pat_completeness auto
termination
  by (relation "measure id") simp_all

declare decimal.simps [simp del]

definition format_int :: "int \<Rightarrow> string" where
  "format_int i = (if i < 0 then ''-'' @ decimal (nat (- i)) else decimal (nat i))"

definition error_Error :: "error \<Rightarrow> string" where
  "error_Error e =
     (case e of
        ErrNotFound \<Rightarrow> ''not found''
      | ErrorString msg \<Rightarrow> msg
      | ServerError code \<Rightarrow> ''client: server status code '' @ format_int code
      | APIResponseError msg \<Rightarrow> msg)"

definition LogError_Error :: "LogError \<Rightarrow> string" where
  "LogError_Error err =
     ''LogError ['' @ Type err @ ''-'' @ format_int (StatusCode err) @ ''] ('' @
       (case Err err of None \<Rightarrow> ''%!s(<nil>)'' | Some e \<Rightarrow> error_Error e) @ '')''"

definition error_response :: "string \<Rightarrow> APIResponse" where
  "error_response msg = \<lparr>Data = zero_LogPayload, ErrStr = msg\<rparr>"

definition data_response :: "LogPayload \<Rightarrow> APIResponse" where
  "data_response p = \<lparr>Data = p, ErrStr = []\<rparr>"

text \<open>
  The routes of \<^verbatim>\<open>Log.Service\<close> that the peer client calls, run by the peer on its
  own log \<open>l\<close>. The result is the status code the handler sets (0 when it sets none),
  the response as the client decodes it, and the peer's log afterwards. The rollback and
  record routes go to the store directly, as in the source.
\<close>

definition Service_route ::
  "json \<Rightarrow> request \<Rightarrow> 's Log \<Rightarrow> (int \<times> APIResponse) \<times> 's Log" where
  "Service_route J req l =
     (case req of
        GetPrepare \<Rightarrow>
          (case Log_Prepared J l of
             (payload, Some err) \<Rightarrow>
               ((StatusCode err, error_response (LogError_Error err)), l)
           | (payload, None) \<Rightarrow> ((0, data_response payload), l))
      | PostPrepare preparePayload \<Rightarrow>
          (case Log_Prepare J preparePayload l of
             (Some err, l') \<Rightarrow> ((StatusCode err, error_response (LogError_Error err)), l')
           | (None, l') \<Rightarrow> ((0, data_response zero_LogPayload), l'))
      | GetCommit \<Rightarrow>
          (case Log_Committed J l of
             (payload, Some err) \<Rightarrow>
               ((StatusCode err, error_response (LogError_Error err)), l)
           | (payload, None) \<Rightarrow> ((0, data_response payload), l))
      | PostCommit \<Rightarrow>
          (case Log_Commit J l of
             (Some err, l') \<Rightarrow> ((StatusCode err, error_response (LogError_Error err)), l')
           | (None, l') \<Rightarrow> ((0, data_response zero_LogPayload), l'))
      | PostRollback \<Rightarrow>
          (case lm2log_Rollback (commitLog l) of
             (Some err, c) \<Rightarrow>
               ((StatusInternalServerError, error_response (error_Error err)),
                l\<lparr>commitLog := c\<rparr>)
           | (None, c) \<Rightarrow> ((0, data_response zero_LogPayload), l\<lparr>commitLog := c\<rparr>))
      | GetRecord version \<Rightarrow>
          (case lm2log_Get version (commitLog l) of
             (data, Some err) \<Rightarrow>
               ((StatusInternalServerError, error_response (error_Error err)), l)
           | (data, None) \<Rightarrow>
               (case Unmarshal J data of
                  Inl err \<Rightarrow> ((StatusInternalServerError, error_response (error_Error err)), l)
                | Inr operation \<Rightarrow>
                    ((0, data_response \<lparr>Version = version, Op = operation\<rparr>), l))))"

text \<open>
  The state beyond the wire when the peer is such a log: the peer's log, and a schedule
  of the wire's faults. The head of \<open>faults\<close> says whether the next request is lost
  before it reaches the peer; an empty schedule loses none.
\<close>

record 's remote =
  remote_log :: "'s Log"
  faults :: "bool list"

text \<open>
  \<^verbatim>\<open>doRequest\<close> against such a peer: a lost request gives the transport's error; a
  status outside 2xx gives \<^verbatim>\<open>ServerError\<close>. The response writer sends status 0 as 200.
\<close>

definition remote_doRequest ::
  "json \<Rightarrow> request \<Rightarrow> 's remote \<Rightarrow> (error option \<times> APIResponse) \<times> 's remote" where
  "remote_doRequest J req w =
     (case faults w of
        True # fs \<Rightarrow> ((Some (ErrorString ''request failed''), error_response []), w\<lparr>faults := fs\<rparr>)
      | _ \<Rightarrow>
          (case Service_route J req (remote_log w) of
             ((code, resp), l) \<Rightarrow>
               (let status = (if code = 0 then 200 else code)
                in ((if status div 100 \<noteq> 2 then Some (ServerError status) else None, resp),
                    w\<lparr>remote_log := l, faults := tl (faults w)\<rparr>))))"

definition remote_client :: "json \<Rightarrow> 's remote LogClient" where
  "remote_client J = \<lparr>doRequest = remote_doRequest J\<rparr>"

section \<open>Concrete services, a codec and logs\<close>

text \<open>
  Instances on which the theorems below are run: a service that accepts everything, one
  whose \<^verbatim>\<open>Apply\<close> fails, one whose \<^verbatim>\<open>Validate\<close> rejects, a codec that writes an
  operation as its method, a colon and its data, and a few logs.
\<close>

definition accepting_service :: "unit Service" where
  "accepting_service =
     \<lparr>Validate = (\<lambda>op s. (None, s)), Apply = (\<lambda>v op s. (None, s)),
      LockResources = (\<lambda>op s. (True, s)), UnlockResources = (\<lambda>op s. s)\<rparr>"


definition rejecting_service :: "unit Service" where
  "rejecting_service =
     \<lparr>Validate = (\<lambda>op s. (Some (ErrorString ''rejected''), s)),
      Apply = (\<lambda>v op s. (None, s)),
      LockResources = (\<lambda>op s. (True, s)), UnlockResources = (\<lambda>op s. s)\<rparr>"

definition colon_json :: json where
  "colon_json =
     \<lparr>Marshal = (\<lambda>op. Inr (M op @ '':'' @ D op)),
      Unmarshal = (\<lambda>str. Inr \<lparr>M = takeWhile (\<lambda>ch. ch \<noteq> CHR '':'') str,
                              D = drop 1 (dropWhile (\<lambda>ch. ch \<noteq> CHR '':'') str)\<rparr>),
      DecodePayload = (\<lambda>str. Inr \<lparr>Version = 0,
                                   Op = \<lparr>M = takeWhile (\<lambda>ch. ch \<noteq> CHR '':'') str,
                                          D = drop 1 (dropWhile (\<lambda>ch. ch \<noteq> CHR '':'') str)\<rparr>\<rparr>)\<rparr>"

definition set_op :: Operation where
  "set_op = \<lparr>M = ''set'', D = ''k''\<rparr>"

text \<open>
  The same codec with a decoder of request bodies that reads a version: the body is the
  version in decimal digits, a colon, and the operation as above.
\<close>

definition versioned_json :: json where
  "versioned_json =
     colon_json
       \<lparr>DecodePayload :=
          (\<lambda>str. case Unmarshal colon_json
                         (drop 1 (dropWhile (\<lambda>ch. ch \<noteq> CHR '':'') str)) of
                    Inl err \<Rightarrow> Inl err
                  | Inr operation \<Rightarrow>
                      Inr \<lparr>Version =
                             fold (\<lambda>ch n. 10 * n + of_nat (of_char ch - 48))
                               (takeWhile (\<lambda>ch. ch \<noteq> CHR '':'') str) 0,
                           Op = operation\<rparr>)\<rparr>"

text \<open>A log store with the versions \<open>1 .. n\<close> committed, each holding \<open>set:k\<close>.\<close>

definition committed_store :: "nat \<Rightarrow> lm2log" where
  "committed_store n =
     \<lparr>records = (\<lambda>v. if 1 \<le> unat v \<and> unat v \<le> n then Some ''set:k'' else None),
      committed = of_nat n, prepared = None\<rparr>"

section \<open>Runs of the commit log\<close>

text \<open>
  A call of one of the operations \<^verbatim>\<open>Prepare\<close>, \<^verbatim>\<open>Commit\<close>, \<^verbatim>\<open>Rollback\<close> and
  \<^verbatim>\<open>Compact\<close> of the commit log, and the log after a sequence of such calls, whatever
  each of them returned.
\<close>

datatype log_call = CallPrepare LogPayload | CallCommit | CallRollback | CallCompact nat

definition Log_call :: "json \<Rightarrow> log_call \<Rightarrow> 's Log \<Rightarrow> 's Log" where
  "Log_call J call l =
     (case call of
        CallPrepare payload \<Rightarrow> snd (Log_Prepare J payload l)
      | CallCommit \<Rightarrow> snd (Log_Commit J l)
      | CallRollback \<Rightarrow> snd (Log_Rollback l)
      | CallCompact recordsToKeep \<Rightarrow> snd (Log_Compact recordsToKeep l))"

fun Log_calls :: "json \<Rightarrow> log_call list \<Rightarrow> 's Log \<Rightarrow> 's Log" where
  "Log_calls J [] l = l"
| "Log_calls J (call # calls) l = Log_calls J calls (Log_call J call l)"

text \<open>The prepared version of a store, when there is one, is the one after the committed.\<close>

definition prepared_is_next :: "lm2log \<Rightarrow> bool" where
  "prepared_is_next s = (case prepared s of None \<Rightarrow> True | Some v \<Rightarrow> v = committed s + 1)"

section \<open>Concrete doers\<close>

text \<open>A doer with no peer on a new log, and the outcome of a peer call that counts as failed.\<close>

definition solo_doer :: "(unit, unit) Doer" where
  "solo_doer =
     \<lparr>doer_commitLog = NewLog None accepting_service () True, peer = None,
      peerInSync = True, errCount = 0, peer_world = (), peer_calls = []\<rparr>"

text \<open>
  A call of the peer client failed when it returned an error, other than "not found" from
  the reads of the prepared and committed records, which the callers take for version 0.
\<close>

definition rpc_failed :: "request \<times> error option \<Rightarrow> bool" where
  "rpc_failed call =
     (case call of
        (req, None) \<Rightarrow> False
      | (req, Some err) \<Rightarrow> \<not> (err = ErrNotFound \<and> (req = GetPrepare \<or> req = GetCommit)))"

text \<open>
  A doer whose peer is another commit log behind a wire with the given faults; both
  services accept everything.
\<close>

definition peer_doer :: "lm2log \<Rightarrow> lm2log \<Rightarrow> bool list \<Rightarrow> (unit, unit remote) Doer" where
  "peer_doer local_store remote_store fs =
     \<lparr>doer_commitLog = NewLog (Some local_store) accepting_service () True,
      peer = Some (remote_client colon_json), peerInSync = True, errCount = 0,
      peer_world = \<lparr>remote_log = NewLog (Some remote_store) accepting_service () True,
                    faults = fs\<rparr>,
      peer_calls = []\<rparr>"


text \<open>The versions \<open>1 .. 2\<close> committed and then compacted with nothing kept.\<close>

definition emptied_store :: lm2log where
  "emptied_store = snd (lm2log_Compact 0 (committed_store 2))"



section \<open>Facts about the commit log\<close>

lemma Log_Prepare_cases:
  "Log_Prepare J p l =
     (if Version p \<noteq> committed (commitLog l) + 1
      then (Some (internal (Some (ErrorString ''preparing invalid version'')) StatusBadRequest), l)
      else case Validate (service l) (Op p) (service_state l) of
             (Some err, st) \<Rightarrow>
               (Some (internal (Some (ErrorString ''invalid operation'')) StatusBadRequest),
                l\<lparr>service_state := st\<rparr>)
           | (None, st) \<Rightarrow>
               (case Marshal J (Op p) of
                  Inl err \<Rightarrow> (Some (internal (Some err) StatusInternalServerError),
                              l\<lparr>service_state := st\<rparr>)
                | Inr data \<Rightarrow>
                    (case prepared (commitLog l) of
                       Some v \<Rightarrow>
                         (Some (internal (Some (ErrorString ''lm2log: already prepared''))
                                  StatusInternalServerError), l\<lparr>service_state := st\<rparr>)
                     | None \<Rightarrow>
                         (None, l\<lparr>service_state := st,
                                  commitLog := (commitLog l)
                                    \<lparr>records := (records (commitLog l))(Version p \<mapsto> data),
                                     prepared := Some (Version p)\<rparr>\<rparr>))))"
  by (simp add: Log_Prepare_def lm2log_Committed_def lm2log_Prepare_def
      split: prod.splits option.splits sum.splits)

lemma Log_Committed_cases:
  "Log_Committed J l =
    (if committed (commitLog l) = 0 then (zero_LogPayload, Some (internal None StatusNotFound))
     else case records (commitLog l) (committed (commitLog l)) of
            None \<Rightarrow> (zero_LogPayload, Some (internal (Some ErrNotFound) StatusInternalServerError))
          | Some data \<Rightarrow>
              (case Unmarshal J data of
                 Inl err \<Rightarrow> (zero_LogPayload, Some (internal (Some err) StatusInternalServerError))
               | Inr operation \<Rightarrow> (\<lparr>Version = committed (commitLog l), Op = operation\<rparr>, None)))"
  by (simp add: Log_Committed_def lm2log_Committed_def lm2log_Get_def
      split: option.splits sum.splits)

lemma Log_Prepare_success:
  assumes "Log_Prepare J p l = (None, l1)"
  shows "Version p = committed (commitLog l) + 1 \<and>
         (\<exists>data. Marshal J (Op p) = Inr data \<and>
            commitLog l1 = (commitLog l)\<lparr>records := (records (commitLog l))(Version p \<mapsto> data),
                                         prepared := Some (Version p)\<rparr>) \<and>
         applied l1 = applied l \<and> service l1 = service l"
  using assms
  by (auto simp add: Log_Prepare_cases split: if_splits prod.splits option.splits sum.splits)

lemma Log_Commit_prepared:
  assumes "Log_Commit J l1 = (None, l2)"
      and "prepared (commitLog l1) = Some v" and "v \<noteq> 0"
      and "records (commitLog l1) v = Some data"
  shows "committed (commitLog l2) = v \<and>
         (\<exists>op. Unmarshal J data = Inr op \<and> applied l2 = applied l1 @ [(v, op)])"
  using assms
  by (auto simp add: Log_Commit_def lm2log_Commit_def lm2log_Committed_def lm2log_Get_def
      split: if_splits prod.splits option.splits sum.splits)

lemma Log_LockResources_keeps [simp]:
  "commitLog (snd (Log_LockResources op l)) = commitLog l"
  "applied (snd (Log_LockResources op l)) = applied l"
  by (simp_all add: Log_LockResources_def split: prod.splits)

lemma Log_UnlockResources_keeps [simp]:
  "commitLog (Log_UnlockResources op l) = commitLog l"
  "applied (Log_UnlockResources op l) = applied l"
  by (simp_all add: Log_UnlockResources_def)

lemma Log_Commit_ignores_applyCommits:
  "Log_Commit J (l\<lparr>applyCommits := b\<rparr>) =
     (fst (Log_Commit J l), (snd (Log_Commit J l))\<lparr>applyCommits := b\<rparr>)"
  by (simp add: Log_Commit_def split: prod.splits option.splits sum.splits)

lemma word_succ_neq_0:
  fixes c :: "'a::len word"
  assumes "c \<noteq> - 1"
  shows "c + 1 \<noteq> 0"
  by (metis add_neg_numeral_special(8) add_right_cancel assms)

lemma word_less_succ:
  fixes c :: "'a::len word"
  assumes "c \<noteq> - 1"
  shows "c < c + 1"
  using assms inc_less_eq_triv_imp verit_comp_simplify1(3) by blast

text \<open>
  Claim C1: \<^verbatim>\<open>Log.Commit\<close> promotes the prepared record to committed and calls
  \<^verbatim>\<open>service.Apply\<close> on it only if \<^verbatim>\<open>applyCommits\<close> is true. The code never reads the
  flag (\<open>Log_Commit_ignores_applyCommits\<close>): on a log made with \<^verbatim>\<open>applyCommits\<close> false
  and holding the prepared record of version 1, \<^verbatim>\<open>Commit\<close> succeeds, commits version 1
  and calls \<^verbatim>\<open>Apply(1, op)\<close>.
\<close>

theorem Log_Commit_applies_when_applyCommits_false:
  "applyCommits (snd (Log_Prepare colon_json \<lparr>Version = 1, Op = set_op\<rparr>
                       (NewLog None accepting_service () False))) = False \<and>
   prepared (commitLog (snd (Log_Prepare colon_json \<lparr>Version = 1, Op = set_op\<rparr>
                              (NewLog None accepting_service () False)))) = Some 1 \<and>
   applied (snd (Log_Prepare colon_json \<lparr>Version = 1, Op = set_op\<rparr>
                  (NewLog None accepting_service () False))) = [] \<and>
   fst (Log_Commit colon_json
          (snd (Log_Prepare colon_json \<lparr>Version = 1, Op = set_op\<rparr>
                 (NewLog None accepting_service () False)))) = None \<and>
   committed (commitLog (snd (Log_Commit colon_json
          (snd (Log_Prepare colon_json \<lparr>Version = 1, Op = set_op\<rparr>
                 (NewLog None accepting_service () False)))))) = 1 \<and>
   applied (snd (Log_Commit colon_json
          (snd (Log_Prepare colon_json \<lparr>Version = 1, Op = set_op\<rparr>
                 (NewLog None accepting_service () False))))) = [(1, set_op)]"
  by (simp add: Log_Prepare_def Log_Commit_def NewLog_def lm2log_New_def lm2log_Committed_def
      lm2log_Prepare_def lm2log_Commit_def lm2log_Get_def accepting_service_def colon_json_def
      set_op_def)

text \<open>
  Claim C6: \<^verbatim>\<open>Log.Prepare\<close> returns an error with status 400 when the payload's version
  is not \<open>committed + 1\<close> or when \<^verbatim>\<open>service.Validate\<close> rejects the operation, and in
  both cases the store is unchanged; the store changes only when both preconditions hold
  and the call succeeds; and when the call succeeds, the encoded operation is the
  prepared record, at the payload's version.
\<close>

theorem Log_Prepare_preconditions:
  "(Version p \<noteq> committed (commitLog l) + 1 \<longrightarrow>
      (\<exists>e. fst (Log_Prepare J p l) = Some e \<and> StatusCode e = StatusBadRequest) \<and>
      commitLog (snd (Log_Prepare J p l)) = commitLog l) \<and>
   (fst (Validate (service l) (Op p) (service_state l)) \<noteq> None \<longrightarrow>
      (\<exists>e. fst (Log_Prepare J p l) = Some e \<and> StatusCode e = StatusBadRequest) \<and>
      commitLog (snd (Log_Prepare J p l)) = commitLog l) \<and>
   (commitLog (snd (Log_Prepare J p l)) \<noteq> commitLog l \<longrightarrow>
      Version p = committed (commitLog l) + 1 \<and>
      fst (Validate (service l) (Op p) (service_state l)) = None \<and>
      fst (Log_Prepare J p l) = None) \<and>
   (fst (Log_Prepare J p l) = None \<longrightarrow>
      (\<exists>data. Marshal J (Op p) = Inr data \<and>
         commitLog (snd (Log_Prepare J p l)) =
           (commitLog l)\<lparr>records := (records (commitLog l))(Version p \<mapsto> data),
                         prepared := Some (Version p)\<rparr>))"
  by (auto simp add: Log_Prepare_cases internal_def split: prod.splits option.splits sum.splits)

theorem Log_Prepare_preconditions_witness:
  "((\<exists>e. fst (Log_Prepare colon_json \<lparr>Version = 5, Op = set_op\<rparr>
                (NewLog None accepting_service () True)) = Some e \<and>
         StatusCode e = StatusBadRequest) \<and>
    commitLog (snd (Log_Prepare colon_json \<lparr>Version = 5, Op = set_op\<rparr>
                      (NewLog None accepting_service () True))) =
      commitLog (NewLog None accepting_service () True)) \<and>
   ((\<exists>e. fst (Log_Prepare colon_json \<lparr>Version = 1, Op = set_op\<rparr>
                (NewLog None rejecting_service () True)) = Some e \<and>
         StatusCode e = StatusBadRequest) \<and>
    commitLog (snd (Log_Prepare colon_json \<lparr>Version = 1, Op = set_op\<rparr>
                      (NewLog None rejecting_service () True))) =
      commitLog (NewLog None rejecting_service () True)) \<and>
   fst (Log_Prepare colon_json \<lparr>Version = 1, Op = set_op\<rparr>
          (NewLog None accepting_service () True)) = None \<and>
   records (commitLog (snd (Log_Prepare colon_json \<lparr>Version = 1, Op = set_op\<rparr>
                     (NewLog None accepting_service () True)))) 1 = Some ''set:k'' \<and>
   prepared (commitLog (snd (Log_Prepare colon_json \<lparr>Version = 1, Op = set_op\<rparr>
                     (NewLog None accepting_service () True)))) = Some 1"
proof -
  let ?A = "NewLog None accepting_service () True"
  let ?R = "NewLog None rejecting_service () True"
  have h1: "Version \<lparr>Version = 5, Op = set_op\<rparr> \<noteq> committed (commitLog ?A) + 1"
    by (simp add: NewLog_def lm2log_New_def)
  have h2: "fst (Validate (service ?R) (Op \<lparr>Version = 1, Op = set_op\<rparr>) (service_state ?R))
              \<noteq> None"
    by (simp add: NewLog_def rejecting_service_def)
  have h3: "fst (Log_Prepare colon_json \<lparr>Version = 1, Op = set_op\<rparr> ?A) = None"
    by (simp add: Log_Prepare_cases NewLog_def lm2log_New_def accepting_service_def
        colon_json_def)
  have m: "Marshal colon_json (Op \<lparr>Version = 1, Op = set_op\<rparr>) = Inr ''set:k''"
    by (simp add: colon_json_def set_op_def)
  note t1 = Log_Prepare_preconditions [where p = "\<lparr>Version = 5, Op = set_op\<rparr>" and l = ?A
      and J = colon_json, THEN conjunct1, THEN mp, OF h1]
  note t2 = Log_Prepare_preconditions [where p = "\<lparr>Version = 1, Op = set_op\<rparr>" and l = ?R
      and J = colon_json, THEN conjunct2, THEN conjunct1, THEN mp, OF h2]
  from Log_Prepare_preconditions [where p = "\<lparr>Version = 1, Op = set_op\<rparr>" and l = ?A
      and J = colon_json, THEN conjunct2, THEN conjunct2, THEN conjunct2, THEN mp, OF h3]
  obtain data where d: "Marshal colon_json (Op \<lparr>Version = 1, Op = set_op\<rparr>) = Inr data"
    and c: "commitLog (snd (Log_Prepare colon_json \<lparr>Version = 1, Op = set_op\<rparr> ?A)) =
           (commitLog ?A)\<lparr>records := (records (commitLog ?A))
                            (Version \<lparr>Version = 1, Op = set_op\<rparr> \<mapsto> data),
                          prepared := Some (Version \<lparr>Version = 1, Op = set_op\<rparr>)\<rparr>"
    by blast
  from d m have "data = ''set:k''" by simp
  with c have t3: "records (commitLog (snd (Log_Prepare colon_json \<lparr>Version = 1, Op = set_op\<rparr> ?A))) 1 = Some ''set:k''"
      "prepared (commitLog (snd (Log_Prepare colon_json \<lparr>Version = 1, Op = set_op\<rparr> ?A))) = Some 1"
    by simp_all
  from t1 t2 h3 t3 show ?thesis by blast
qed

section \<open>The invariant of the store\<close>

lemma prepared_is_next_Prepare:
  "prepared_is_next (commitLog l) \<Longrightarrow> prepared_is_next (commitLog (snd (Log_Prepare J p l)))"
  by (auto simp: Log_Prepare_def lm2log_Committed_def lm2log_Prepare_def prepared_is_next_def
      split: prod.splits option.splits sum.splits if_splits)

lemma prepared_is_next_Commit: "prepared_is_next (commitLog (snd (Log_Commit J l)))"
  by (auto simp: Log_Commit_def lm2log_Committed_def lm2log_Commit_def prepared_is_next_def
      split: prod.splits option.splits sum.splits if_splits)

lemma prepared_is_next_Rollback: "prepared_is_next (commitLog (snd (Log_Rollback l)))"
  by (auto simp: Log_Rollback_def lm2log_Rollback_def prepared_is_next_def
      split: prod.splits option.splits sum.splits if_splits)

lemma prepared_is_next_Compact:
  "prepared_is_next (commitLog l) \<Longrightarrow> prepared_is_next (commitLog (snd (Log_Compact k l)))"
  by (auto simp: Log_Compact_def lm2log_Compact_def prepared_is_next_def
      split: prod.splits option.splits sum.splits if_splits)

lemma prepared_is_next_call:
  "prepared_is_next (commitLog l) \<Longrightarrow> prepared_is_next (commitLog (Log_call J call l))"
  by (cases call) (simp_all add: Log_call_def prepared_is_next_Prepare prepared_is_next_Commit
      prepared_is_next_Rollback prepared_is_next_Compact)

lemma prepared_is_next_calls:
  "prepared_is_next (commitLog l) \<Longrightarrow> prepared_is_next (commitLog (Log_calls J calls l))"
  by (induction calls arbitrary: l) (simp_all add: prepared_is_next_call)

text \<open>
  Claim C7: in every state reached from an empty log by calls of \<^verbatim>\<open>Prepare\<close>,
  \<^verbatim>\<open>Commit\<close>, \<^verbatim>\<open>Rollback\<close> and \<^verbatim>\<open>Compact\<close>, whatever their arguments and results,
  the store holds at most one prepared version (it is a single optional field), and when
  it holds one, that version is \<open>committed + 1\<close>.
\<close>

theorem reachable_prepared_is_next:
  "prepared_is_next (commitLog (Log_calls J calls (NewLog None svc st apply_commits)))"
  by (rule prepared_is_next_calls) (simp add: NewLog_def lm2log_New_def prepared_is_next_def)

theorem reachable_prepared_is_next_witness:
  "prepared (commitLog (Log_calls colon_json
      [CallPrepare \<lparr>Version = 1, Op = set_op\<rparr>, CallCommit, CallCompact 0,
       CallPrepare \<lparr>Version = 2, Op = set_op\<rparr>]
      (NewLog None accepting_service () True))) = Some 2 \<and>
   committed (commitLog (Log_calls colon_json
      [CallPrepare \<lparr>Version = 1, Op = set_op\<rparr>, CallCommit, CallCompact 0,
       CallPrepare \<lparr>Version = 2, Op = set_op\<rparr>]
      (NewLog None accepting_service () True))) = 1"
proof -
  let ?l = "Log_calls colon_json
      [CallPrepare \<lparr>Version = 1, Op = set_op\<rparr>, CallCommit, CallCompact 0,
       CallPrepare \<lparr>Version = 2, Op = set_op\<rparr>]
      (NewLog None accepting_service () True)"
  have c: "committed (commitLog ?l) = 1"
    by (simp add: Log_call_def Log_Prepare_cases Log_Commit_def Log_Compact_def NewLog_def
        lm2log_New_def lm2log_Commit_def lm2log_Committed_def lm2log_Get_def lm2log_Compact_def
        accepting_service_def colon_json_def set_op_def)
  have p: "prepared (commitLog ?l) \<noteq> None"
    by (simp add: Log_call_def Log_Prepare_cases Log_Commit_def Log_Compact_def NewLog_def
        lm2log_New_def lm2log_Commit_def lm2log_Committed_def lm2log_Get_def lm2log_Compact_def
        accepting_service_def colon_json_def set_op_def)
  from reachable_prepared_is_next [of colon_json
      "[CallPrepare \<lparr>Version = 1, Op = set_op\<rparr>, CallCommit, CallCompact 0,
        CallPrepare \<lparr>Version = 2, Op = set_op\<rparr>]" accepting_service "()" True] c p
  show ?thesis by (auto simp add: prepared_is_next_def split: option.splits)
qed

text \<open>
  Claim C8: \<^verbatim>\<open>Log.Rollback\<close> on a log with no prepared record returns no error and
  leaves the log as it was; \<^verbatim>\<open>Rollback\<close> never returns an error, and a second
  \<^verbatim>\<open>Rollback\<close> right after a first returns the same result and the same log.
\<close>

theorem Log_Rollback_noop:
  "(prepared (commitLog l) = None \<longrightarrow> Log_Rollback l = (None, l)) \<and>
   fst (Log_Rollback l) = None \<and>
   Log_Rollback (snd (Log_Rollback l)) = Log_Rollback l"
  by (simp add: Log_Rollback_def lm2log_Rollback_def split: option.splits)

theorem Log_Rollback_noop_witness:
  "prepared (commitLog (NewLog (Some (committed_store 2)) accepting_service () True)) = None \<and>
   Log_Rollback (NewLog (Some (committed_store 2)) accepting_service () True) =
     (None, NewLog (Some (committed_store 2)) accepting_service () True)"
proof -
  have h: "prepared (commitLog (NewLog (Some (committed_store 2)) accepting_service () True))
             = None"
    by (simp add: NewLog_def committed_store_def)
  with Log_Rollback_noop [of "NewLog (Some (committed_store 2)) accepting_service () True"]
  show ?thesis by blast
qed

section \<open>Facts about the write path\<close>

lemma peer_Prepare_keeps [simp]:
  "doer_commitLog (snd (peer_Prepare c p d)) = doer_commitLog d"
  "peer (snd (peer_Prepare c p d)) = peer d"
  "peerInSync (snd (peer_Prepare c p d)) = peerInSync d"
  by (simp_all add: peer_Prepare_def split: prod.splits)

lemma peer_Commit_keeps [simp]:
  "doer_commitLog (snd (peer_Commit c d)) = doer_commitLog d"
  "peer (snd (peer_Commit c d)) = peer d"
  "peerInSync (snd (peer_Commit c d)) = peerInSync d"
  by (simp_all add: peer_Commit_def split: prod.splits)

lemma Do_prepare_tries_keeps:
  "doer_commitLog (snd (Do_prepare_tries c p tries err d)) = doer_commitLog d \<and>
   peer (snd (Do_prepare_tries c p tries err d)) = peer d \<and>
   peerInSync (snd (Do_prepare_tries c p tries err d)) = peerInSync d"
proof (induction c p tries err d rule: Do_prepare_tries.induct)
  case (1 c p tries err d)
  show ?case
  proof (cases "tries < 3")
    case False
    then show ?thesis by (simp add: Do_prepare_tries.simps [of c p tries err d])
  next
    case True
    obtain r d1 where r: "peer_Prepare c p d = (r, d1)" by (cases "peer_Prepare c p d")
    have k: "doer_commitLog d1 = doer_commitLog d" "peer d1 = peer d" "peerInSync d1 = peerInSync d"
      using peer_Prepare_keeps [of c p d] r by simp_all
    show ?thesis
    proof (cases r)
      case None
      with True r k show ?thesis by (simp add: Do_prepare_tries.simps [of c p tries err d])
    next
      case (Some e)
      from "1.IH" [OF True r [symmetric] Some] True r k Some show ?thesis
        by (simp add: Do_prepare_tries.simps [of c p tries err d])
    qed
  qed
qed

lemma Do_commit_tries_keeps:
  "doer_commitLog (snd (Do_commit_tries c tries err d)) = doer_commitLog d \<and>
   peer (snd (Do_commit_tries c tries err d)) = peer d \<and>
   peerInSync (snd (Do_commit_tries c tries err d)) = peerInSync d"
proof (induction c tries err d rule: Do_commit_tries.induct)
  case (1 c tries err d)
  show ?case
  proof (cases "tries < 3")
    case False
    then show ?thesis by (simp add: Do_commit_tries.simps [of c tries err d])
  next
    case True
    obtain r d1 where r: "peer_Commit c d = (r, d1)" by (cases "peer_Commit c d")
    have k: "doer_commitLog d1 = doer_commitLog d" "peer d1 = peer d" "peerInSync d1 = peerInSync d"
      using peer_Commit_keeps [of c d] r by simp_all
    show ?thesis
    proof (cases r)
      case None
      with True r k show ?thesis by (simp add: Do_commit_tries.simps [of c tries err d])
    next
      case (Some e)
      from "1.IH" [OF True r [symmetric] Some] True r k Some show ?thesis
        by (simp add: Do_commit_tries.simps [of c tries err d])
    qed
  qed
qed

lemma Do_peer_prepare_log [simp]:
  "doer_commitLog (Do_peer_prepare p d) = doer_commitLog d"
proof (cases "peer d")
  case None
  then show ?thesis by (simp add: Do_peer_prepare_def)
next
  case (Some c)
  obtain r d' where r: "Do_prepare_tries c p 0 None d = (r, d')"
    by (cases "Do_prepare_tries c p 0 None d")
  with Do_prepare_tries_keeps [of c p 0 None d] have "doer_commitLog d' = doer_commitLog d"
    by simp
  with Some r show ?thesis by (cases r) (simp_all add: Do_peer_prepare_def)
qed

lemma Do_peer_commit_log [simp]:
  "doer_commitLog (Do_peer_commit d) = doer_commitLog d"
proof (cases "peer d")
  case None
  then show ?thesis by (simp add: Do_peer_commit_def)
next
  case (Some c)
  obtain r d' where r: "Do_commit_tries c 0 None d = (r, d')"
    by (cases "Do_commit_tries c 0 None d")
  with Do_commit_tries_keeps [of c 0 None d] have "doer_commitLog d' = doer_commitLog d"
    by simp
  with Some r show ?thesis by (cases r) (simp_all add: Do_peer_commit_def)
qed

lemma Do_write_success:
  assumes "Do_write J p d = (Returns None, d')"
  shows "\<exists>l1 l2. Log_Prepare J p (doer_commitLog d) = (None, l1) \<and>
                 Log_Commit J l1 = (None, l2) \<and> doer_commitLog d' = l2"
proof -
  obtain r l1 where P: "Log_Prepare J p (doer_commitLog d) = (r, l1)"
    by (cases "Log_Prepare J p (doer_commitLog d)")
  from assms P have r: "r = None"
    by (cases r) (simp_all add: Do_write_def)
  obtain r2 l2 where C: "Log_Commit J l1 = (r2, l2)" by (cases "Log_Commit J l1")
  from assms P r C have r2: "r2 = None"
    by (cases r2) (simp_all add: Do_write_def Let_def split: prod.splits option.splits)
  from assms P r C r2 have "doer_commitLog d' = l2"
    by (simp add: Do_write_def Let_def) (metis Do_peer_commit_log Doer.select_convs(1) Doer.update_convs(1) Doer.surjective)
  with P r C r2 show ?thesis by simp
qed

lemma Do_success:
  assumes "Do J p ignoreVersion d = (Returns None, d')"
  shows "\<exists>l0 l1 l2 v. Log_LockResources (Op p) (doer_commitLog d) = (None, l0) \<and>
           Log_Prepare J (p\<lparr>Version := v\<rparr>) l0 = (None, l1) \<and>
           Log_Commit J l1 = (None, l2) \<and>
           doer_commitLog d' = Log_UnlockResources (Op p) l2"
proof -
  obtain r l0 where L: "Log_LockResources (Op p) (doer_commitLog d) = (r, l0)"
    by (cases "Log_LockResources (Op p) (doer_commitLog d)")
  from assms L have r: "r = None" by (cases r) (simp_all add: Do_def)
  obtain o1 d1 where B: "Do_locked J p ignoreVersion (d\<lparr>doer_commitLog := l0\<rparr>) = (o1, d1)"
    by (cases "Do_locked J p ignoreVersion (d\<lparr>doer_commitLog := l0\<rparr>)")
  from assms L r B have o1: "o1 = Returns None"
    by (cases o1) (simp_all add: Do_def)
  from assms L r B o1
  have d': "d' = d1\<lparr>doer_commitLog := Log_UnlockResources (Op p) (doer_commitLog d1)\<rparr>"
    by (simp add: Do_def)
  obtain cp cerr where C: "Log_Committed J l0 = (cp, cerr)" by (cases "Log_Committed J l0")
  define p' where "p' = (if ignoreVersion then p\<lparr>Version := Version cp + 1\<rparr> else p)"
  from B o1 C have W: "Do_write J p' (d\<lparr>doer_commitLog := l0\<rparr>) = (Returns None, d1)"
    by (auto simp add: Do_locked_def p'_def Let_def split: option.splits if_splits)
  from Do_write_success [OF W] obtain l1 l2 where
    "Log_Prepare J p' l0 = (None, l1)" "Log_Commit J l1 = (None, l2)" "doer_commitLog d1 = l2"
    by auto
  moreover have "p' = p\<lparr>Version := Version p'\<rparr>" by (simp add: p'_def)
  ultimately have "Log_Prepare J (p\<lparr>Version := Version p'\<rparr>) l0 = (None, l1)"
    "doer_commitLog d' = Log_UnlockResources (Op p) l2"
    using d' by simp_all
  with L r \<open>Log_Commit J l1 = (None, l2)\<close> show ?thesis by blast
qed

lemma Do_prepare_tries_calls:
  "\<exists>es. length es \<le> 3 - tries \<and>
        peer_calls (snd (Do_prepare_tries c p tries err d)) =
          peer_calls d @ map (Pair (PostPrepare p)) es"
proof (induction c p tries err d rule: Do_prepare_tries.induct)
  case (1 c p tries err d)
  show ?case
  proof (cases "tries < 3")
    case False
    then show ?thesis by (simp add: Do_prepare_tries.simps [of c p tries err d])
  next
    case True
    obtain r d1 where r: "peer_Prepare c p d = (r, d1)" by (cases "peer_Prepare c p d")
    then have k: "peer_calls d1 = peer_calls d @ [(PostPrepare p, r)]"
      by (auto simp add: peer_Prepare_def split: prod.splits)
    show ?thesis
    proof (cases r)
      case None
      with True r k have "peer_calls (snd (Do_prepare_tries c p tries err d)) =
          peer_calls d @ map (Pair (PostPrepare p)) [None]"
        by (simp add: Do_prepare_tries.simps [of c p tries err d])
      moreover from True have "length [None :: error option] \<le> 3 - tries" by simp
      ultimately show ?thesis by blast
    next
      case (Some e)
      from "1.IH" [OF True r [symmetric] Some] obtain es where
        es: "length es \<le> 3 - (tries + 1)"
          "peer_calls (snd (Do_prepare_tries c p (tries + 1) (Some e) d1)) =
             peer_calls d1 @ map (Pair (PostPrepare p)) es"
        by blast
      with True r k Some have "peer_calls (snd (Do_prepare_tries c p tries err d)) =
          peer_calls d @ map (Pair (PostPrepare p)) (Some e # es)"
        by (simp add: Do_prepare_tries.simps [of c p tries err d])
      moreover from True es(1) have "length (Some e # es) \<le> 3 - tries" by simp
      ultimately show ?thesis by blast
    qed
  qed
qed

lemma Do_commit_tries_calls:
  "\<exists>es. length es \<le> 3 - tries \<and>
        peer_calls (snd (Do_commit_tries c tries err d)) =
          peer_calls d @ map (Pair PostCommit) es"
proof (induction c tries err d rule: Do_commit_tries.induct)
  case (1 c tries err d)
  show ?case
  proof (cases "tries < 3")
    case False
    then show ?thesis by (simp add: Do_commit_tries.simps [of c tries err d])
  next
    case True
    obtain r d1 where r: "peer_Commit c d = (r, d1)" by (cases "peer_Commit c d")
    then have k: "peer_calls d1 = peer_calls d @ [(PostCommit, r)]"
      by (auto simp add: peer_Commit_def split: prod.splits)
    show ?thesis
    proof (cases r)
      case None
      with True r k have "peer_calls (snd (Do_commit_tries c tries err d)) =
          peer_calls d @ map (Pair PostCommit) [None]"
        by (simp add: Do_commit_tries.simps [of c tries err d])
      moreover from True have "length [None :: error option] \<le> 3 - tries" by simp
      ultimately show ?thesis by blast
    next
      case (Some e)
      from "1.IH" [OF True r [symmetric] Some] obtain es where
        es: "length es \<le> 3 - (tries + 1)"
          "peer_calls (snd (Do_commit_tries c (tries + 1) (Some e) d1)) =
             peer_calls d1 @ map (Pair PostCommit) es"
        by blast
      with True r k Some have "peer_calls (snd (Do_commit_tries c tries err d)) =
          peer_calls d @ map (Pair PostCommit) (Some e # es)"
        by (simp add: Do_commit_tries.simps [of c tries err d])
      moreover from True es(1) have "length (Some e # es) \<le> 3 - tries" by simp
      ultimately show ?thesis by blast
    qed
  qed
qed

lemma Do_peer_prepare_calls:
  "\<exists>es. length es \<le> 3 \<and>
        peer_calls (Do_peer_prepare p d) = peer_calls d @ map (Pair (PostPrepare p)) es"
proof (cases "peer d")
  case None
  then have "peer_calls (Do_peer_prepare p d) = peer_calls d @ map (Pair (PostPrepare p)) []"
    by (simp add: Do_peer_prepare_def)
  then show ?thesis by (metis list.size(3) zero_le)
next
  case (Some c)
  show ?thesis
  proof (cases "peerInSync d")
    case False
    with Some have "peer_calls (Do_peer_prepare p d) = peer_calls d @ map (Pair (PostPrepare p)) []"
      by (simp add: Do_peer_prepare_def)
    then show ?thesis by (metis list.size(3) zero_le)
  next
    case True
    from Do_prepare_tries_calls [of 0 c p None d] obtain es where
      "length es \<le> 3" "peer_calls (snd (Do_prepare_tries c p 0 None d)) =
          peer_calls d @ map (Pair (PostPrepare p)) es" by auto
    with Some True have "peer_calls (Do_peer_prepare p d) = peer_calls d @ map (Pair (PostPrepare p)) es"
      by (auto simp add: Do_peer_prepare_def split: prod.splits option.splits)
    with \<open>length es \<le> 3\<close> show ?thesis by blast
  qed
qed

lemma Do_peer_commit_calls:
  "\<exists>es. length es \<le> 3 \<and>
        peer_calls (Do_peer_commit d) = peer_calls d @ map (Pair PostCommit) es"
proof (cases "peer d")
  case None
  then have "peer_calls (Do_peer_commit d) = peer_calls d @ map (Pair PostCommit) []"
    by (simp add: Do_peer_commit_def)
  then show ?thesis by (metis list.size(3) zero_le)
next
  case (Some c)
  show ?thesis
  proof (cases "peerInSync d")
    case False
    with Some have "peer_calls (Do_peer_commit d) = peer_calls d @ map (Pair PostCommit) []"
      by (simp add: Do_peer_commit_def)
    then show ?thesis by (metis list.size(3) zero_le)
  next
    case True
    from Do_commit_tries_calls [of 0 c None d] obtain es where
      "length es \<le> 3" "peer_calls (snd (Do_commit_tries c 0 None d)) =
          peer_calls d @ map (Pair PostCommit) es" by auto
    with Some True have "peer_calls (Do_peer_commit d) = peer_calls d @ map (Pair PostCommit) es"
      by (auto simp add: Do_peer_commit_def split: prod.splits option.splits)
    with \<open>length es \<le> 3\<close> show ?thesis by blast
  qed
qed

lemma Do_peer_prepare_all_fail:
  assumes "peer d = Some c" and "peerInSync d"
    and "LogClient_Prepare c p (peer_world d) = (Some e1, w1)"
    and "LogClient_Prepare c p w1 = (Some e2, w2)"
    and "LogClient_Prepare c p w2 = (Some e3, w3)"
  shows "Do_peer_prepare p d =
           d\<lparr>peerInSync := False, peer_world := w3,
             peer_calls := peer_calls d @
               [(PostPrepare p, Some e1), (PostPrepare p, Some e2), (PostPrepare p, Some e3)]\<rparr>"
  using assms
  by (simp add: Do_peer_prepare_def Do_prepare_tries.simps peer_Prepare_def)

lemma Do_peer_commit_all_fail:
  assumes "peer d = Some c" and "peerInSync d"
    and "LogClient_Commit c (peer_world d) = (Some e1, w1)"
    and "LogClient_Commit c w1 = (Some e2, w2)"
    and "LogClient_Commit c w2 = (Some e3, w3)"
  shows "Do_peer_commit d =
           d\<lparr>peerInSync := False, peer_world := w3,
             peer_calls := peer_calls d @
               [(PostCommit, Some e1), (PostCommit, Some e2), (PostCommit, Some e3)]\<rparr>"
  using assms
  by (simp add: Do_peer_commit_def Do_commit_tries.simps peer_Commit_def)

lemma Do_peer_prepare_out_of_sync:
  "\<not> peerInSync d \<Longrightarrow> Do_peer_prepare p d = d" "\<not> peerInSync d \<Longrightarrow> Do_peer_commit d = d"
  by (simp_all add: Do_peer_prepare_def Do_peer_commit_def split: option.splits)

text \<open>
  Claim C4: when a call of \<^verbatim>\<open>Doer.Do\<close> returns \<^verbatim>\<open>nil\<close>, the committed version of
  the commit log is its value at entry plus one and is greater than it, and during the
  call \<^verbatim>\<open>service.Apply\<close> was called exactly once, with the new committed version and
  the operation decoded from the record that was written for the payload. Versions are
  \<^verbatim>\<open>uint64\<close>: the statement is for a log that is not at the last version
  \<open>2^64 - 1\<close>, after which the counter wraps to 0.
\<close>

theorem Do_success_commits_once:
  assumes "Do J p ignoreVersion d = (Returns None, d')"
      and "committed (commitLog (doer_commitLog d)) \<noteq> - 1"
  shows "committed (commitLog (doer_commitLog d')) = committed (commitLog (doer_commitLog d)) + 1 \<and>
         committed (commitLog (doer_commitLog d)) < committed (commitLog (doer_commitLog d')) \<and>
         (\<exists>data op. Marshal J (Op p) = Inr data \<and> Unmarshal J data = Inr op \<and>
            applied (doer_commitLog d') =
              applied (doer_commitLog d) @ [(committed (commitLog (doer_commitLog d')), op)])"
proof -
  from Do_success [OF assms(1)] obtain l0 l1 l2 v where
    L: "Log_LockResources (Op p) (doer_commitLog d) = (None, l0)" and
    P: "Log_Prepare J (p\<lparr>Version := v\<rparr>) l0 = (None, l1)" and
    C: "Log_Commit J l1 = (None, l2)" and
    d': "doer_commitLog d' = Log_UnlockResources (Op p) l2"
    by blast
  let ?c = "committed (commitLog (doer_commitLog d))"
  from L have l0: "commitLog l0 = commitLog (doer_commitLog d)" "applied l0 = applied (doer_commitLog d)"
    using Log_LockResources_keeps [of "Op p" "doer_commitLog d"] by simp_all
  from Log_Prepare_success [OF P] l0 obtain data where
    v: "v = ?c + 1" and m: "Marshal J (Op p) = Inr data" and
    c1: "commitLog l1 = (commitLog l0)\<lparr>records := (records (commitLog l0))(v \<mapsto> data), prepared := Some v\<rparr>" and
    a1: "applied l1 = applied (doer_commitLog d)"
    by auto
  from v assms(2) have v0: "v \<noteq> 0" by (simp add: word_succ_neq_0)
  from c1 have "prepared (commitLog l1) = Some v" "records (commitLog l1) v = Some data" by simp_all
  from Log_Commit_prepared [OF C this(1) v0 this(2)] obtain op where
    "committed (commitLog l2) = v" "Unmarshal J data = Inr op" "applied l2 = applied l1 @ [(v, op)]"
    by auto
  with d' v m a1 word_less_succ [OF assms(2)] show ?thesis by simp
qed

theorem Do_success_commits_once_witness:
  "fst (Do colon_json \<lparr>Version = 0, Op = set_op\<rparr> True solo_doer) = Returns None \<and>
   committed (commitLog (doer_commitLog solo_doer)) = 0 \<and>
   committed (commitLog (doer_commitLog
     (snd (Do colon_json \<lparr>Version = 0, Op = set_op\<rparr> True solo_doer)))) = 1 \<and>
   applied (doer_commitLog
     (snd (Do colon_json \<lparr>Version = 0, Op = set_op\<rparr> True solo_doer))) = [(1, set_op)]"
proof -
  let ?r = "Do colon_json \<lparr>Version = 0, Op = set_op\<rparr> True solo_doer"
  have c0: "committed (commitLog (doer_commitLog solo_doer)) = 0"
    and a0: "applied (doer_commitLog solo_doer) = []"
    by (simp_all add: solo_doer_def NewLog_def lm2log_New_def)
  have ok: "fst ?r = Returns None"
    by (simp add: Do_def Do_locked_def Do_write_def Do_peer_prepare_def Do_peer_commit_def
        Log_LockResources_def Log_UnlockResources_def Log_Committed_cases Log_Prepare_cases
        Log_Commit_def lm2log_Commit_def lm2log_Committed_def lm2log_Get_def solo_doer_def
        NewLog_def lm2log_New_def accepting_service_def colon_json_def set_op_def
        zero_LogPayload_def internal_def)
  then have run: "?r = (Returns None, snd ?r)" by (simp add: prod_eq_iff)
  from c0 have nz: "committed (commitLog (doer_commitLog solo_doer)) \<noteq> - 1" by simp
  from Do_success_commits_once [OF run nz] c0 a0 obtain data op where
    c1: "committed (commitLog (doer_commitLog (snd ?r))) = 1" and
    m: "Marshal colon_json (Op \<lparr>Version = 0, Op = set_op\<rparr>) = Inr data" and
    u: "Unmarshal colon_json data = Inr op" and
    a1: "applied (doer_commitLog (snd ?r)) = [(1, op)]"
    by auto
  from m u have "op = set_op" by (auto simp add: colon_json_def set_op_def)
  with ok c0 c1 a1 show ?thesis by simp
qed

lemma Log_Committed_goes_on:
  assumes "case snd (Log_Committed J l) of None \<Rightarrow> True | Some e \<Rightarrow> Err e = None"
  shows "Version (fst (Log_Committed J l)) = committed (commitLog l)"
  using assms
  by (auto simp add: Log_Committed_cases internal_def zero_LogPayload_def
      split: if_splits option.splits sum.splits)

lemma Do_reaches_write:
  assumes "Log_LockResources (Op p) (doer_commitLog d) = (None, l0)"
    and "case snd (Log_Committed J l0) of None \<Rightarrow> True | Some e \<Rightarrow> Err e = None"
  shows "Do J p ignoreVersion d =
     (case Do_write J
             (if ignoreVersion
              then p\<lparr>Version := committed (commitLog (doer_commitLog d)) + 1\<rparr> else p)
             (d\<lparr>doer_commitLog := l0\<rparr>) of
        (Fatal, d1) \<Rightarrow> (Fatal, d1)
      | (Returns r, d1) \<Rightarrow>
          (Returns r, d1\<lparr>doer_commitLog := Log_UnlockResources (Op p) (doer_commitLog d1)\<rparr>))"
proof -
  from assms(1) have c: "commitLog l0 = commitLog (doer_commitLog d)"
    using Log_LockResources_keeps(1) [of "Op p" "doer_commitLog d"] by simp
  obtain cp cerr where C: "Log_Committed J l0 = (cp, cerr)" by (cases "Log_Committed J l0")
  with Log_Committed_goes_on [OF assms(2)] c
  have v: "Version cp = committed (commitLog (doer_commitLog d))" by simp
  from assms(2) C have e: "cerr = None \<or> (\<exists>e. cerr = Some e \<and> Err e = None)"
    by (cases cerr) simp_all
  from e show ?thesis
  proof
    assume "cerr = None"
    with assms(1) C v show ?thesis by (simp add: Do_def Do_locked_def Let_def)
  next
    assume "\<exists>e. cerr = Some e \<and> Err e = None"
    then obtain e where "cerr = Some e" "Err e = None" by blast
    with assms(1) C v show ?thesis by (simp add: Do_def Do_locked_def Let_def)
  qed
qed

lemma Do_write_prepare_all_fail:
  assumes "peer d = Some c" and "peerInSync d"
    and "Log_Prepare J p (doer_commitLog d) = (None, l1)"
    and "LogClient_Prepare c p (peer_world d) = (Some e1, w1)"
    and "LogClient_Prepare c p w1 = (Some e2, w2)"
    and "LogClient_Prepare c p w2 = (Some e3, w3)"
  shows "Do_write J p d =
          (let d1 = d\<lparr>peerInSync := False, peer_world := w3,
                      peer_calls := peer_calls d @
                        [(PostPrepare p, Some e1), (PostPrepare p, Some e2),
                         (PostPrepare p, Some e3)]\<rparr>
           in case Log_Commit J l1 of
                (None, l2) \<Rightarrow> (Returns None, d1\<lparr>doer_commitLog := l2\<rparr>)
              | (Some err, l2) \<Rightarrow>
                  (case Log_Rollback l2 of
                     (None, l3) \<Rightarrow> (Returns (Some err), d1\<lparr>doer_commitLog := l3\<rparr>)
                   | (Some rollbackErr, l3) \<Rightarrow> (Fatal, d1\<lparr>doer_commitLog := l3\<rparr>)))"
proof -
  let ?d0 = "d\<lparr>doer_commitLog := l1\<rparr>"
  have "Do_peer_prepare p ?d0 =
           ?d0\<lparr>peerInSync := False, peer_world := w3,
             peer_calls := peer_calls ?d0 @
               [(PostPrepare p, Some e1), (PostPrepare p, Some e2), (PostPrepare p, Some e3)]\<rparr>"
    using assms(1,2,4,5,6)
    by (intro Do_peer_prepare_all_fail [where c = c and ?w1.0 = w1 and ?w2.0 = w2]) simp_all
  with assms(3) show ?thesis
    by (simp add: Do_write_def Let_def Do_peer_prepare_out_of_sync
        split: prod.splits option.splits)
qed

lemma Do_write_commit_all_fail:
  assumes "peer d = Some c" and "peerInSync d"
    and "Log_Prepare J p (doer_commitLog d) = (None, l1)"
    and "Do_prepare_tries c p 0 None (d\<lparr>doer_commitLog := l1\<rparr>) = (None, d1)"
    and "Log_Commit J l1 = (None, l2)"
    and "LogClient_Commit c (peer_world d1) = (Some e1, w1)"
    and "LogClient_Commit c w1 = (Some e2, w2)"
    and "LogClient_Commit c w2 = (Some e3, w3)"
  shows "Do_write J p d =
          (Returns None,
           d1\<lparr>doer_commitLog := l2, peerInSync := False, peer_world := w3,
              peer_calls := peer_calls d1 @
                [(PostCommit, Some e1), (PostCommit, Some e2), (PostCommit, Some e3)]\<rparr>)"
proof -
  from assms(1,2,4) have pp: "Do_peer_prepare p (d\<lparr>doer_commitLog := l1\<rparr>) = d1"
    by (simp add: Do_peer_prepare_def)
  from Do_prepare_tries_keeps [of c p 0 None "d\<lparr>doer_commitLog := l1\<rparr>"] assms(1,2,4)
  have k: "doer_commitLog d1 = l1" "peer d1 = Some c" "peerInSync d1" by simp_all
  let ?d2 = "d1\<lparr>doer_commitLog := l2\<rparr>"
  have "Do_peer_commit ?d2 =
           ?d2\<lparr>peerInSync := False, peer_world := w3,
             peer_calls := peer_calls ?d2 @
               [(PostCommit, Some e1), (PostCommit, Some e2), (PostCommit, Some e3)]\<rparr>"
    using k assms(6,7,8)
    by (intro Do_peer_commit_all_fail [where c = c and ?w1.0 = w1 and ?w2.0 = w2]) simp_all
  with assms(3,5) pp k show ?thesis by (simp add: Do_write_def Let_def)
qed

lemma Do_write_outcome:
  assumes "Log_Prepare J p (doer_commitLog d) = (None, l1)"
  shows "fst (Do_write J p d) =
           (case Log_Commit J l1 of
              (None, l2) \<Rightarrow> Returns None
            | (Some err, l2) \<Rightarrow>
                (case Log_Rollback l2 of
                   (None, l3) \<Rightarrow> Returns (Some err)
                 | (Some rollbackErr, l3) \<Rightarrow> Fatal))"
  using assms by (simp add: Do_write_def Let_def split: prod.splits option.splits)

lemma Do_write_calls:
  assumes "Log_Prepare J p (doer_commitLog d) = (None, l1)"
  shows "\<exists>es1 es2. length es1 \<le> 3 \<and> length es2 \<le> 3 \<and>
           peer_calls (snd (Do_write J p d)) =
             peer_calls d @ map (Pair (PostPrepare p)) es1 @ map (Pair PostCommit) es2"
proof -
  let ?d1 = "Do_peer_prepare p (d\<lparr>doer_commitLog := l1\<rparr>)"
  from Do_peer_prepare_calls [of p "d\<lparr>doer_commitLog := l1\<rparr>"] obtain es1 where
    es1: "length es1 \<le> 3" "peer_calls ?d1 = peer_calls d @ map (Pair (PostPrepare p)) es1"
    by auto
  obtain r l2 where C: "Log_Commit J l1 = (r, l2)" by (cases "Log_Commit J l1")
  show ?thesis
  proof (cases r)
    case (Some err)
    obtain rr l3 where R: "Log_Rollback l2 = (rr, l3)" by (cases "Log_Rollback l2")
    from assms C Some R es1(2)
    have "peer_calls (snd (Do_write J p d)) =
            peer_calls d @ map (Pair (PostPrepare p)) es1 @ map (Pair PostCommit) []"
      by (cases rr) (simp_all add: Do_write_def Let_def)
    with es1(1) show ?thesis by (metis list.size(3) zero_le)
  next
    case None
    from Do_peer_commit_calls [of "?d1\<lparr>doer_commitLog := l2\<rparr>"] obtain es2 where
      es2: "length es2 \<le> 3"
        "peer_calls (Do_peer_commit (?d1\<lparr>doer_commitLog := l2\<rparr>)) =
           peer_calls ?d1 @ map (Pair PostCommit) es2"
      by auto
    from assms C None es1(2) es2(2)
    have "peer_calls (snd (Do_write J p d)) =
            peer_calls d @ map (Pair (PostPrepare p)) es1 @ map (Pair PostCommit) es2"
      by (simp add: Do_write_def Let_def)
    with es1(1) es2(1) show ?thesis by blast
  qed
qed

lemma Do_after_write:
  assumes "Do J p ignoreVersion d =
     (case Do_write J p' d0 of
        (Fatal, d1) \<Rightarrow> (Fatal, d1)
      | (Returns r, d1) \<Rightarrow>
          (Returns r, d1\<lparr>doer_commitLog := Log_UnlockResources (Op p) (doer_commitLog d1)\<rparr>))"
  shows "fst (Do J p ignoreVersion d) = fst (Do_write J p' d0)"
    and "peer_calls (snd (Do J p ignoreVersion d)) = peer_calls (snd (Do_write J p' d0))"
    and "peerInSync (snd (Do J p ignoreVersion d)) = peerInSync (snd (Do_write J p' d0))"
  using assms by (simp_all split: prod.splits outcome.splits)

text \<open>
  Claim C5: in \<^verbatim>\<open>Doer.Do\<close> with a peer set and \<^verbatim>\<open>peerInSync\<close> true, when the
  resources are taken, the read of the committed version lets \<^verbatim>\<open>Do\<close> go on and the
  local \<^verbatim>\<open>Prepare\<close> of the payload \<open>p'\<close> succeeds: if three calls of
  \<^verbatim>\<open>peer.Prepare\<close> in a row fail, \<^verbatim>\<open>Do\<close> ends with \<^verbatim>\<open>peerInSync\<close> false after
  exactly these three calls to the peer, the local \<^verbatim>\<open>Commit\<close> runs on the log as
  \<^verbatim>\<open>Prepare\<close> left it, with the prepared record still there, and \<^verbatim>\<open>Do\<close> returns
  \<^verbatim>\<open>nil\<close> when that commit succeeds; if the retry loop of \<^verbatim>\<open>peer.Prepare\<close> ends with
  a success, the local \<^verbatim>\<open>Commit\<close> succeeds and three calls of \<^verbatim>\<open>peer.Commit\<close> in a
  row fail, \<^verbatim>\<open>Do\<close> returns \<^verbatim>\<open>nil\<close> with \<^verbatim>\<open>peerInSync\<close> false after exactly
  these three calls more; whatever the peer answers, \<^verbatim>\<open>Do\<close> calls \<^verbatim>\<open>peer.Prepare\<close>
  at most three times and then \<^verbatim>\<open>peer.Commit\<close> at most three times; and what
  \<^verbatim>\<open>Do\<close> returns to its caller is decided by the local \<^verbatim>\<open>Commit\<close> (and the
  rollback after its failure) alone: \<^verbatim>\<open>nil\<close> when it succeeds, its own error
  otherwise, never an error of the peer.
\<close>

theorem Do_peer_failures_downgraded:
  assumes "peer d = Some c" and "peerInSync d"
    and "Log_LockResources (Op p) (doer_commitLog d) = (None, l0)"
    and "case snd (Log_Committed J l0) of None \<Rightarrow> True | Some e \<Rightarrow> Err e = None"
    and "p' = (if ignoreVersion
               then p\<lparr>Version := committed (commitLog (doer_commitLog d)) + 1\<rparr> else p)"
    and "Log_Prepare J p' l0 = (None, l1)"
  shows
    "(LogClient_Prepare c p' (peer_world d) = (Some e1, w1) \<and>
      LogClient_Prepare c p' w1 = (Some e2, w2) \<and>
      LogClient_Prepare c p' w2 = (Some e3, w3) \<longrightarrow>
        Do J p ignoreVersion d =
          (let d1 = d\<lparr>peerInSync := False, peer_world := w3,
                      peer_calls := peer_calls d @
                        [(PostPrepare p', Some e1), (PostPrepare p', Some e2),
                         (PostPrepare p', Some e3)]\<rparr>
           in case Log_Commit J l1 of
                (None, l2) \<Rightarrow>
                  (Returns None, d1\<lparr>doer_commitLog := Log_UnlockResources (Op p) l2\<rparr>)
              | (Some err, l2) \<Rightarrow>
                  (case Log_Rollback l2 of
                     (None, l3) \<Rightarrow>
                       (Returns (Some err),
                        d1\<lparr>doer_commitLog := Log_UnlockResources (Op p) l3\<rparr>)
                   | (Some rollbackErr, l3) \<Rightarrow> (Fatal, d1\<lparr>doer_commitLog := l3\<rparr>)))) \<and>
     (Do_prepare_tries c p' 0 None (d\<lparr>doer_commitLog := l1\<rparr>) = (None, d1) \<and>
      Log_Commit J l1 = (None, l2) \<and>
      LogClient_Commit c (peer_world d1) = (Some e1, w1) \<and>
      LogClient_Commit c w1 = (Some e2, w2) \<and>
      LogClient_Commit c w2 = (Some e3, w3) \<longrightarrow>
        Do J p ignoreVersion d =
          (Returns None,
           d1\<lparr>doer_commitLog := Log_UnlockResources (Op p) l2, peerInSync := False,
              peer_world := w3,
              peer_calls := peer_calls d1 @
                [(PostCommit, Some e1), (PostCommit, Some e2), (PostCommit, Some e3)]\<rparr>)) \<and>
     (\<exists>es1 es2. length es1 \<le> 3 \<and> length es2 \<le> 3 \<and>
        peer_calls (snd (Do J p ignoreVersion d)) =
          peer_calls d @ map (Pair (PostPrepare p')) es1 @ map (Pair PostCommit) es2) \<and>
     fst (Do J p ignoreVersion d) =
       (case Log_Commit J l1 of
          (None, l2) \<Rightarrow> Returns None
        | (Some err, l2) \<Rightarrow>
            (case Log_Rollback l2 of
               (None, l3) \<Rightarrow> Returns (Some err)
             | (Some rollbackErr, l3) \<Rightarrow> Fatal))"
proof -
  let ?d0 = "d\<lparr>doer_commitLog := l0\<rparr>"
  from Do_reaches_write [OF assms(3,4), of ignoreVersion] assms(5)
  have D: "Do J p ignoreVersion d =
     (case Do_write J p' ?d0 of
        (Fatal, d1) \<Rightarrow> (Fatal, d1)
      | (Returns r, d1) \<Rightarrow>
          (Returns r, d1\<lparr>doer_commitLog := Log_UnlockResources (Op p) (doer_commitLog d1)\<rparr>))"
    by simp
  from assms(1,2,6) have k: "peer ?d0 = Some c" "peerInSync ?d0"
    "Log_Prepare J p' (doer_commitLog ?d0) = (None, l1)" by simp_all
  have c1: "Do J p ignoreVersion d =
          (let d1 = d\<lparr>peerInSync := False, peer_world := w3,
                      peer_calls := peer_calls d @
                        [(PostPrepare p', Some e1), (PostPrepare p', Some e2),
                         (PostPrepare p', Some e3)]\<rparr>
           in case Log_Commit J l1 of
                (None, l2) \<Rightarrow>
                  (Returns None, d1\<lparr>doer_commitLog := Log_UnlockResources (Op p) l2\<rparr>)
              | (Some err, l2) \<Rightarrow>
                  (case Log_Rollback l2 of
                     (None, l3) \<Rightarrow>
                       (Returns (Some err),
                        d1\<lparr>doer_commitLog := Log_UnlockResources (Op p) l3\<rparr>)
                   | (Some rollbackErr, l3) \<Rightarrow> (Fatal, d1\<lparr>doer_commitLog := l3\<rparr>)))"
    if a: "LogClient_Prepare c p' (peer_world d) = (Some e1, w1) \<and>
      LogClient_Prepare c p' w1 = (Some e2, w2) \<and>
      LogClient_Prepare c p' w2 = (Some e3, w3)"
  proof -
    from a have f: "LogClient_Prepare c p' (peer_world ?d0) = (Some e1, w1)"
      "LogClient_Prepare c p' w1 = (Some e2, w2)" "LogClient_Prepare c p' w2 = (Some e3, w3)"
      by simp_all
    note W = Do_write_prepare_all_fail [OF k f]
    obtain r l2 where C: "Log_Commit J l1 = (r, l2)" by (cases "Log_Commit J l1")
    show ?thesis
    proof (cases r)
      case None
      with W D C show ?thesis by (simp add: Let_def)
    next
      case (Some err)
      obtain rr l3 where R: "Log_Rollback l2 = (rr, l3)" by (cases "Log_Rollback l2")
      from W D C Some R show ?thesis by (cases rr) (simp_all add: Let_def)
    qed
  qed
  have c2: "Do J p ignoreVersion d =
          (Returns None,
           d1\<lparr>doer_commitLog := Log_UnlockResources (Op p) l2, peerInSync := False,
              peer_world := w3,
              peer_calls := peer_calls d1 @
                [(PostCommit, Some e1), (PostCommit, Some e2), (PostCommit, Some e3)]\<rparr>)"
    if a: "Do_prepare_tries c p' 0 None (d\<lparr>doer_commitLog := l1\<rparr>) = (None, d1) \<and>
      Log_Commit J l1 = (None, l2) \<and>
      LogClient_Commit c (peer_world d1) = (Some e1, w1) \<and>
      LogClient_Commit c w1 = (Some e2, w2) \<and>
      LogClient_Commit c w2 = (Some e3, w3)"
  proof -
    from a have f: "Do_prepare_tries c p' 0 None (?d0\<lparr>doer_commitLog := l1\<rparr>) = (None, d1)"
      "Log_Commit J l1 = (None, l2)"
      "LogClient_Commit c (peer_world d1) = (Some e1, w1)"
      "LogClient_Commit c w1 = (Some e2, w2)" "LogClient_Commit c w2 = (Some e3, w3)"
      by simp_all
    from Do_write_commit_all_fail [OF k f] D show ?thesis by simp
  qed
  from Do_write_calls [OF k(3)] Do_after_write(2) [OF D]
  have c3: "\<exists>es1 es2. length es1 \<le> 3 \<and> length es2 \<le> 3 \<and>
        peer_calls (snd (Do J p ignoreVersion d)) =
          peer_calls d @ map (Pair (PostPrepare p')) es1 @ map (Pair PostCommit) es2"
    by simp
  from Do_write_outcome [OF k(3)] Do_after_write(1) [OF D]
  have c4: "fst (Do J p ignoreVersion d) =
       (case Log_Commit J l1 of
          (None, l2) \<Rightarrow> Returns None
        | (Some err, l2) \<Rightarrow>
            (case Log_Rollback l2 of
               (None, l3) \<Rightarrow> Returns (Some err)
             | (Some rollbackErr, l3) \<Rightarrow> Fatal))"
    by simp
  from c1 c2 c3 c4 show ?thesis by blast
qed

theorem Do_peer_failures_downgraded_witness:
  "Do colon_json \<lparr>Version = 7, Op = set_op\<rparr> True
      (peer_doer lm2log_New lm2log_New [True, True, True]) =
     (Returns None,
      (peer_doer lm2log_New lm2log_New [])
        \<lparr>peerInSync := False,
         peer_calls :=
           [(PostPrepare \<lparr>Version = 1, Op = set_op\<rparr>, Some (ErrorString ''request failed'')),
            (PostPrepare \<lparr>Version = 1, Op = set_op\<rparr>, Some (ErrorString ''request failed'')),
            (PostPrepare \<lparr>Version = 1, Op = set_op\<rparr>, Some (ErrorString ''request failed''))],
         doer_commitLog :=
           (NewLog (Some lm2log_New) accepting_service () True)
             \<lparr>commitLog := lm2log_New\<lparr>records := [1 \<mapsto> ''set:k''], committed := 1,
                                       prepared := None\<rparr>,
              applied := [(1, set_op)]\<rparr>\<rparr>) \<and>
   fst (Do colon_json \<lparr>Version = 7, Op = set_op\<rparr> True
          (peer_doer lm2log_New lm2log_New [False, True, True, True])) = Returns None \<and>
   peerInSync (snd (Do colon_json \<lparr>Version = 7, Op = set_op\<rparr> True
          (peer_doer lm2log_New lm2log_New [False, True, True, True]))) = False \<and>
   committed (commitLog (doer_commitLog (snd (Do colon_json \<lparr>Version = 7, Op = set_op\<rparr> True
          (peer_doer lm2log_New lm2log_New [False, True, True, True]))))) = 1 \<and>
   peer_calls (snd (Do colon_json \<lparr>Version = 7, Op = set_op\<rparr> True
          (peer_doer lm2log_New lm2log_New [False, True, True, True]))) =
     [(PostPrepare \<lparr>Version = 1, Op = set_op\<rparr>, None),
      (PostCommit, Some (ErrorString ''request failed'')),
      (PostCommit, Some (ErrorString ''request failed'')),
      (PostCommit, Some (ErrorString ''request failed''))]"
proof -
  let ?q = "\<lparr>Version = 7, Op = set_op\<rparr>"
  let ?p = "\<lparr>Version = 1, Op = set_op\<rparr>"
  let ?c = "remote_client colon_json :: unit remote LogClient"
  let ?e = "ErrorString ''request failed''"
  let ?l = "NewLog (Some lm2log_New) accepting_service () True"
  let ?l1 = "?l\<lparr>commitLog := lm2log_New\<lparr>records := [1 \<mapsto> ''set:k''], prepared := Some 1\<rparr>\<rparr>"
  let ?l2 = "?l\<lparr>commitLog := lm2log_New\<lparr>records := [1 \<mapsto> ''set:k''], committed := 1,
                                          prepared := None\<rparr>,
                applied := [(1, set_op)]\<rparr>"
  have prep: "Log_Prepare colon_json ?p ?l = (None, ?l1)"
    by (simp add: Log_Prepare_cases NewLog_def lm2log_New_def accepting_service_def
        colon_json_def set_op_def)
  have com: "Log_Commit colon_json ?l1 = (None, ?l2)"
    by (simp add: Log_Commit_def lm2log_Commit_def lm2log_Committed_def lm2log_Get_def
        NewLog_def lm2log_New_def accepting_service_def colon_json_def set_op_def)
  have unl: "Log_UnlockResources (Op ?q) ?l2 = ?l2"
    by (simp add: Log_UnlockResources_def NewLog_def accepting_service_def)
  have read: "case snd (Log_Committed colon_json ?l) of None \<Rightarrow> True | Some e \<Rightarrow> Err e = None"
    by (simp add: Log_Committed_cases NewLog_def lm2log_New_def internal_def)
  have lost: "LogClient_Prepare ?c ?p \<lparr>remote_log = r, faults = True # fs\<rparr> =
                (Some ?e, \<lparr>remote_log = r, faults = fs\<rparr>)"
    "LogClient_Commit ?c \<lparr>remote_log = r, faults = True # fs\<rparr> =
                (Some ?e, \<lparr>remote_log = r, faults = fs\<rparr>)" for r :: "unit Log" and fs
    by (simp_all add: LogClient_Prepare_def LogClient_Commit_def remote_client_def
        remote_doRequest_def)
  let ?d = "peer_doer lm2log_New lm2log_New [True, True, True]"
  have d: "peer ?d = Some ?c" "peerInSync ?d" "doer_commitLog ?d = ?l"
    "peer_world ?d = \<lparr>remote_log = ?l, faults = [True, True, True]\<rparr>" "peer_calls ?d = []"
    by (simp_all add: peer_doer_def)
  have lock: "Log_LockResources (Op ?q) (doer_commitLog ?d) = (None, ?l)"
    by (simp add: Log_LockResources_def peer_doer_def NewLog_def accepting_service_def)
  have ver: "?p = (if True then ?q\<lparr>Version := committed (commitLog (doer_commitLog ?d)) + 1\<rparr>
                   else ?q)"
    by (simp add: peer_doer_def NewLog_def lm2log_New_def)
  have fails: "LogClient_Prepare ?c ?p (peer_world ?d) =
                 (Some ?e, \<lparr>remote_log = ?l, faults = [True, True]\<rparr>) \<and>
               LogClient_Prepare ?c ?p \<lparr>remote_log = ?l, faults = [True, True]\<rparr> =
                 (Some ?e, \<lparr>remote_log = ?l, faults = [True]\<rparr>) \<and>
               LogClient_Prepare ?c ?p \<lparr>remote_log = ?l, faults = [True]\<rparr> =
                 (Some ?e, \<lparr>remote_log = ?l, faults = []\<rparr>)"
    by (simp add: d(4) lost)
  note a = Do_peer_failures_downgraded [OF d(1) d(2) lock read ver prep, THEN conjunct1,
      THEN mp, OF fails]
  from a com unl have ra:
    "Do colon_json ?q True ?d =
       (Returns None,
        (peer_doer lm2log_New lm2log_New [])
          \<lparr>peerInSync := False,
           peer_calls := [(PostPrepare ?p, Some ?e), (PostPrepare ?p, Some ?e),
                          (PostPrepare ?p, Some ?e)],
           doer_commitLog := ?l2\<rparr>)"
    by (simp add: Let_def peer_doer_def)
  let ?d' = "peer_doer lm2log_New lm2log_New [False, True, True, True]"
  let ?w1 = "\<lparr>remote_log = ?l1, faults = [True, True, True]\<rparr>"
  let ?d1 = "?d'\<lparr>doer_commitLog := ?l1, peer_world := ?w1,
                  peer_calls := [(PostPrepare ?p, None)]\<rparr>"
  have d': "peer ?d' = Some ?c" "peerInSync ?d'" "doer_commitLog ?d' = ?l"
    by (simp_all add: peer_doer_def)
  have lock': "Log_LockResources (Op ?q) (doer_commitLog ?d') = (None, ?l)"
    by (simp add: Log_LockResources_def peer_doer_def NewLog_def accepting_service_def)
  have ver': "?p = (if True then ?q\<lparr>Version := committed (commitLog (doer_commitLog ?d')) + 1\<rparr>
                    else ?q)"
    by (simp add: peer_doer_def NewLog_def lm2log_New_def)
  have arrives: "LogClient_Prepare ?c ?p \<lparr>remote_log = ?l, faults = [False, True, True, True]\<rparr>
                   = (None, ?w1)"
    using prep
    by (simp add: LogClient_Prepare_def remote_client_def remote_doRequest_def Service_route_def
        data_response_def)
  have pp: "Do_prepare_tries ?c ?p 0 None (?d'\<lparr>doer_commitLog := ?l1\<rparr>) = (None, ?d1)"
    using arrives
    by (simp add: Do_prepare_tries.simps peer_Prepare_def peer_doer_def)
  have fails': "Do_prepare_tries ?c ?p 0 None (?d'\<lparr>doer_commitLog := ?l1\<rparr>) = (None, ?d1) \<and>
      Log_Commit colon_json ?l1 = (None, ?l2) \<and>
      LogClient_Commit ?c (peer_world ?d1) =
        (Some ?e, \<lparr>remote_log = ?l1, faults = [True, True]\<rparr>) \<and>
      LogClient_Commit ?c \<lparr>remote_log = ?l1, faults = [True, True]\<rparr> =
        (Some ?e, \<lparr>remote_log = ?l1, faults = [True]\<rparr>) \<and>
      LogClient_Commit ?c \<lparr>remote_log = ?l1, faults = [True]\<rparr> =
        (Some ?e, \<lparr>remote_log = ?l1, faults = []\<rparr>)"
    using pp com by (simp add: lost peer_doer_def)
  note b = Do_peer_failures_downgraded [OF d'(1) d'(2) lock' read ver' prep, THEN conjunct2,
      THEN conjunct1, THEN mp, OF fails']
  from b unl have rb:
    "fst (Do colon_json ?q True ?d') = Returns None"
    "peerInSync (snd (Do colon_json ?q True ?d')) = False"
    "committed (commitLog (doer_commitLog (snd (Do colon_json ?q True ?d')))) = 1"
    "peer_calls (snd (Do colon_json ?q True ?d')) =
       [(PostPrepare ?p, None), (PostCommit, Some ?e), (PostCommit, Some ?e),
        (PostCommit, Some ?e)]"
    by simp_all
  from ra rb show ?thesis by simp
qed

section \<open>Facts about the handler and the read of the committed version\<close>

lemma Params_Bool_Parse_absent:
  "name \<notin> fst ` set form \<Longrightarrow> Params_Bool_Parse name v form = Inr v"
  by (induction form arbitrary: v) auto

lemma Params_Bool_Parse_false_last:
  "name \<notin> fst ` set form \<Longrightarrow>
     Params_Bool_Parse name v (form @ [(name, ''false'')]) = Inr False"
  by (induction form arbitrary: v) (auto simp add: ParseBool_def)

lemma Do_overwrites_Version:
  "Do J p True d = Do J (p\<lparr>Version := committed (commitLog (doer_commitLog d)) + 1\<rparr>) False d"
proof -
  let ?p' = "p\<lparr>Version := committed (commitLog (doer_commitLog d)) + 1\<rparr>"
  obtain r l0 where L: "Log_LockResources (Op p) (doer_commitLog d) = (r, l0)"
    by (cases "Log_LockResources (Op p) (doer_commitLog d)")
  show ?thesis
  proof (cases r)
    case (Some err)
    with L show ?thesis by (simp add: Do_def)
  next
    case None
    with L have L0: "Log_LockResources (Op p) (doer_commitLog d) = (None, l0)"
      and L1: "Log_LockResources (Op ?p') (doer_commitLog d) = (None, l0)" by simp_all
    show ?thesis
    proof (cases "case snd (Log_Committed J l0) of None \<Rightarrow> True | Some e \<Rightarrow> Err e = None")
      case True
      from Do_reaches_write [OF L0 True, of True] Do_reaches_write [OF L1 True, of False]
      show ?thesis by (simp split: prod.splits outcome.splits)
    next
      case False
      then obtain cp e where "Log_Committed J l0 = (cp, Some e)" "Err e \<noteq> None"
        by (cases "Log_Committed J l0") (auto split: option.splits)
      with L0 show ?thesis by (simp add: Do_def Do_locked_def Let_def)
    qed
  qed
qed

text \<open>
  Claim C9: when the form of a \<^verbatim>\<open>POST /do\<close> request has no \<^verbatim>\<open>ignore-version\<close>
  parameter, the handler answers 400 to a body that does not decode and otherwise calls
  \<^verbatim>\<open>Do\<close> with the decoded payload and \<^verbatim>\<open>ignoreVersion\<close> true, and answers from its
  result. With \<^verbatim>\<open>ignoreVersion\<close> true the version of the payload is overwritten with
  the committed version plus one: \<^verbatim>\<open>Do\<close> is then the same as \<^verbatim>\<open>Do\<close> with
  \<^verbatim>\<open>ignoreVersion\<close> false on the payload that carries that version, and, once the
  resources are taken and the read of the committed version lets it go on, it runs its
  local \<^verbatim>\<open>Prepare\<close> and what follows on the payload with that version. When the
  form ends with \<^verbatim>\<open>ignore-version=false\<close> as the only such parameter, the handler calls
  \<^verbatim>\<open>Do\<close> with \<^verbatim>\<open>ignoreVersion\<close> false, on the payload as decoded.
\<close>

theorem Handler_default_ignore_version:
  "(''ignore-version'' \<notin> fst ` set form \<longrightarrow>
      Doer_Handler J form body d =
        (case DecodePayload J body of
           Inl err \<Rightarrow>
             (Some \<lparr>ResponseStatusCode = StatusBadRequest, ResponseHasError = True\<rparr>, d)
         | Inr doPayload \<Rightarrow> Handler_respond (Do J doPayload True d))) \<and>
   Do J p True d =
     Do J (p\<lparr>Version := committed (commitLog (doer_commitLog d)) + 1\<rparr>) False d \<and>
   (Log_LockResources (Op p) (doer_commitLog d) = (None, l0) \<longrightarrow>
    (case snd (Log_Committed J l0) of None \<Rightarrow> True | Some e \<Rightarrow> Err e = None) \<longrightarrow>
      Do J p True d =
        (case Do_write J (p\<lparr>Version := committed (commitLog (doer_commitLog d)) + 1\<rparr>)
                (d\<lparr>doer_commitLog := l0\<rparr>) of
           (Fatal, d1) \<Rightarrow> (Fatal, d1)
         | (Returns r, d1) \<Rightarrow>
             (Returns r,
              d1\<lparr>doer_commitLog := Log_UnlockResources (Op p) (doer_commitLog d1)\<rparr>))) \<and>
   (''ignore-version'' \<notin> fst ` set form \<longrightarrow>
      Doer_Handler J (form @ [(''ignore-version'', ''false'')]) body d =
        (case DecodePayload J body of
           Inl err \<Rightarrow>
             (Some \<lparr>ResponseStatusCode = StatusBadRequest, ResponseHasError = True\<rparr>, d)
         | Inr doPayload \<Rightarrow> Handler_respond (Do J doPayload False d)))"
proof (intro conjI impI)
  assume "''ignore-version'' \<notin> fst ` set form"
  then show "Doer_Handler J form body d =
        (case DecodePayload J body of
           Inl err \<Rightarrow>
             (Some \<lparr>ResponseStatusCode = StatusBadRequest, ResponseHasError = True\<rparr>, d)
         | Inr doPayload \<Rightarrow> Handler_respond (Do J doPayload True d))"
    by (simp add: Doer_Handler_def Params_Bool_Parse_absent)
next
  show "Do J p True d =
     Do J (p\<lparr>Version := committed (commitLog (doer_commitLog d)) + 1\<rparr>) False d"
    by (rule Do_overwrites_Version)
next
  assume "Log_LockResources (Op p) (doer_commitLog d) = (None, l0)"
    and "case snd (Log_Committed J l0) of None \<Rightarrow> True | Some e \<Rightarrow> Err e = None"
  from Do_reaches_write [OF this, of True]
  show "Do J p True d =
        (case Do_write J (p\<lparr>Version := committed (commitLog (doer_commitLog d)) + 1\<rparr>)
                (d\<lparr>doer_commitLog := l0\<rparr>) of
           (Fatal, d1) \<Rightarrow> (Fatal, d1)
         | (Returns r, d1) \<Rightarrow>
             (Returns r,
              d1\<lparr>doer_commitLog := Log_UnlockResources (Op p) (doer_commitLog d1)\<rparr>))"
    by simp
next
  assume "''ignore-version'' \<notin> fst ` set form"
  then show "Doer_Handler J (form @ [(''ignore-version'', ''false'')]) body d =
        (case DecodePayload J body of
           Inl err \<Rightarrow>
             (Some \<lparr>ResponseStatusCode = StatusBadRequest, ResponseHasError = True\<rparr>, d)
         | Inr doPayload \<Rightarrow> Handler_respond (Do J doPayload False d))"
    by (simp add: Doer_Handler_def Params_Bool_Parse_false_last)
qed

theorem Handler_default_ignore_version_witness:
  "Doer_Handler versioned_json [(''verbose'', ''1'')] ''7:set:k'' solo_doer =
     (Some \<lparr>ResponseStatusCode = 0, ResponseHasError = False\<rparr>,
      solo_doer
        \<lparr>doer_commitLog :=
           (NewLog None accepting_service () True)
             \<lparr>commitLog := lm2log_New\<lparr>records := [1 \<mapsto> ''set:k''], committed := 1,
                                       prepared := None\<rparr>,
              applied := [(1, set_op)]\<rparr>\<rparr>) \<and>
   Doer_Handler versioned_json [(''verbose'', ''1''), (''ignore-version'', ''false'')]
       ''7:set:k'' solo_doer =
     (Some \<lparr>ResponseStatusCode = StatusBadRequest, ResponseHasError = True\<rparr>, solo_doer) \<and>
   Doer_Handler versioned_json [(''verbose'', ''1''), (''ignore-version'', ''false'')]
       ''1:set:k'' solo_doer =
     Doer_Handler versioned_json [(''verbose'', ''1'')] ''7:set:k'' solo_doer"
proof -
  let ?J = versioned_json
  let ?q = "\<lparr>Version = 7, Op = set_op\<rparr>"
  let ?p = "\<lparr>Version = 1, Op = set_op\<rparr>"
  let ?l = "NewLog None accepting_service () True :: unit Log"
  let ?l2 = "?l\<lparr>commitLog := lm2log_New\<lparr>records := [1 \<mapsto> ''set:k''], committed := 1,
                                          prepared := None\<rparr>,
                applied := [(1, set_op)]\<rparr>"
  have h: "''ignore-version'' \<notin> fst ` set [(''verbose'', ''1'')]" by simp
  have b7: "DecodePayload ?J ''7:set:k'' = Inr ?q"
    and b1: "DecodePayload ?J ''1:set:k'' = Inr ?p"
    by (simp_all add: versioned_json_def colon_json_def set_op_def)
  have lock: "Log_LockResources (Op ?q) (doer_commitLog solo_doer) = (None, ?l)"
    by (simp add: Log_LockResources_def solo_doer_def NewLog_def accepting_service_def)
  have read: "case snd (Log_Committed ?J ?l) of None \<Rightarrow> True | Some e \<Rightarrow> Err e = None"
    by (simp add: Log_Committed_cases NewLog_def lm2log_New_def internal_def)
  have s: "solo_doer\<lparr>doer_commitLog := ?l\<rparr> = solo_doer" by (simp add: solo_doer_def)
  have c0: "committed (commitLog (doer_commitLog solo_doer)) + 1 = 1"
    by (simp add: solo_doer_def NewLog_def lm2log_New_def)
  have w: "Do_write ?J ?p solo_doer = (Returns None, solo_doer\<lparr>doer_commitLog := ?l2\<rparr>)"
    by (simp add: Do_write_def Do_peer_prepare_def Do_peer_commit_def Log_Prepare_cases
        Log_Commit_def lm2log_Commit_def lm2log_Committed_def lm2log_Get_def solo_doer_def
        NewLog_def lm2log_New_def accepting_service_def versioned_json_def colon_json_def
        set_op_def)
  have unl: "Log_UnlockResources (Op ?q) ?l2 = ?l2"
    by (simp add: Log_UnlockResources_def NewLog_def accepting_service_def)
  note T = Handler_default_ignore_version [where J = ?J and d = solo_doer]
  note t1 = T [where form = "[(''verbose'', ''1'')]" and body = "''7:set:k''",
      THEN conjunct1, THEN mp, OF h]
  note t2 = T [where p = ?q, THEN conjunct2, THEN conjunct1]
  note t3 = T [where p = ?q and ?l0.0 = ?l, THEN conjunct2, THEN conjunct2, THEN conjunct1,
      THEN mp, THEN mp, OF lock read]
  note t4 = T [where form = "[(''verbose'', ''1'')]" and body = "''7:set:k''",
      THEN conjunct2, THEN conjunct2, THEN conjunct2, THEN mp, OF h]
  note t5 = T [where form = "[(''verbose'', ''1'')]" and body = "''1:set:k''",
      THEN conjunct2, THEN conjunct2, THEN conjunct2, THEN mp, OF h]
  from t3 s c0 w unl have do7: "Do ?J ?q True solo_doer =
      (Returns None, solo_doer\<lparr>doer_commitLog := ?l2\<rparr>)"
    by simp
  from t1 b7 do7 have r1: "Doer_Handler ?J [(''verbose'', ''1'')] ''7:set:k'' solo_doer =
     (Some \<lparr>ResponseStatusCode = 0, ResponseHasError = False\<rparr>,
      solo_doer\<lparr>doer_commitLog := ?l2\<rparr>)"
    by (simp add: Handler_respond_def)
  have doF: "Do ?J ?q False solo_doer =
      (Returns (Some (internal (Some (ErrorString ''preparing invalid version''))
                        StatusBadRequest)), solo_doer)"
    by (simp add: Do_def Do_locked_def Do_write_def Log_LockResources_def
        Log_UnlockResources_def Log_Committed_cases Log_Prepare_cases solo_doer_def NewLog_def
        lm2log_New_def accepting_service_def internal_def zero_LogPayload_def)
  from t4 b7 doF
  have r2: "Doer_Handler ?J [(''verbose'', ''1''), (''ignore-version'', ''false'')]
       ''7:set:k'' solo_doer =
     (Some \<lparr>ResponseStatusCode = StatusBadRequest, ResponseHasError = True\<rparr>, solo_doer)"
    by (simp add: Handler_respond_def internal_def)
  from t2 c0 have "Do ?J ?q True solo_doer = Do ?J ?p False solo_doer" by simp
  with t5 b1 t1 b7
  have r3: "Doer_Handler ?J [(''verbose'', ''1''), (''ignore-version'', ''false'')]
       ''1:set:k'' solo_doer =
     Doer_Handler ?J [(''verbose'', ''1'')] ''7:set:k'' solo_doer"
    by simp
  from r1 r2 r3 show ?thesis by simp
qed

text \<open>
  Claim C10: \<^verbatim>\<open>Log.Committed\<close> on a log with nothing committed returns the error of
  status 404 whose \<^verbatim>\<open>Err\<close> is \<^verbatim>\<open>nil\<close>; every error it returns on a log with
  something committed has a set \<^verbatim>\<open>Err\<close>; and \<^verbatim>\<open>Doer.Do\<close>, once it holds the
  resources, on an error from \<^verbatim>\<open>Committed\<close> returns that error when its \<^verbatim>\<open>Err\<close> is
  set, and otherwise goes on to prepare (with version \<open>0 + 1\<close> when \<^verbatim>\<open>ignoreVersion\<close>
  is true).
\<close>

theorem Committed_nil_Err_decides:
  "(committed (commitLog l) = 0 \<longrightarrow>
      Log_Committed J l =
        (zero_LogPayload,
         Some \<lparr>Type = ''internal'', StatusCode = StatusNotFound, Err = None\<rparr>)) \<and>
   (committed (commitLog l) \<noteq> 0 \<longrightarrow> snd (Log_Committed J l) = Some e \<longrightarrow> Err e \<noteq> None) \<and>
   (Log_LockResources (Op p) (doer_commitLog d) = (None, l1) \<longrightarrow>
    snd (Log_Committed J l1) = Some e \<longrightarrow>
      Do J p ignoreVersion d =
        (if Err e \<noteq> None
         then (Returns (Some e), d\<lparr>doer_commitLog := Log_UnlockResources (Op p) l1\<rparr>)
         else case Do_write J (if ignoreVersion then p\<lparr>Version := 0 + 1\<rparr> else p)
                     (d\<lparr>doer_commitLog := l1\<rparr>) of
                (Fatal, d1) \<Rightarrow> (Fatal, d1)
              | (Returns r, d1) \<Rightarrow>
                  (Returns r,
                   d1\<lparr>doer_commitLog := Log_UnlockResources (Op p) (doer_commitLog d1)\<rparr>)))"
proof (intro conjI impI)
  assume "committed (commitLog l) = 0"
  then show "Log_Committed J l =
        (zero_LogPayload,
         Some \<lparr>Type = ''internal'', StatusCode = StatusNotFound, Err = None\<rparr>)"
    by (simp add: Log_Committed_cases internal_def)
next
  assume "committed (commitLog l) \<noteq> 0" and "snd (Log_Committed J l) = Some e"
  then show "Err e \<noteq> None"
    by (auto simp add: Log_Committed_cases internal_def split: option.splits sum.splits)
next
  assume L: "Log_LockResources (Op p) (doer_commitLog d) = (None, l1)"
    and C: "snd (Log_Committed J l1) = Some e"
  obtain cp where cp: "Log_Committed J l1 = (cp, Some e)"
    using C by (cases "Log_Committed J l1") simp
  then have z: "Version cp = 0"
    by (auto simp add: Log_Committed_cases zero_LogPayload_def
        split: if_splits option.splits sum.splits)
  show "Do J p ignoreVersion d =
        (if Err e \<noteq> None
         then (Returns (Some e), d\<lparr>doer_commitLog := Log_UnlockResources (Op p) l1\<rparr>)
         else case Do_write J (if ignoreVersion then p\<lparr>Version := 0 + 1\<rparr> else p)
                     (d\<lparr>doer_commitLog := l1\<rparr>) of
                (Fatal, d1) \<Rightarrow> (Fatal, d1)
              | (Returns r, d1) \<Rightarrow>
                  (Returns r,
                   d1\<lparr>doer_commitLog := Log_UnlockResources (Op p) (doer_commitLog d1)\<rparr>))"
    using L cp z by (simp add: Do_def Do_locked_def Let_def)
qed

theorem Committed_nil_Err_decides_witness:
  "Log_Committed colon_json (NewLog None accepting_service () True) =
     (zero_LogPayload, Some \<lparr>Type = ''internal'', StatusCode = StatusNotFound, Err = None\<rparr>) \<and>
   snd (Log_Committed colon_json (NewLog (Some emptied_store) accepting_service () True)) =
     Some (internal (Some ErrNotFound) StatusInternalServerError) \<and>
   Err (internal (Some ErrNotFound) StatusInternalServerError) \<noteq> None \<and>
   fst (Do colon_json \<lparr>Version = 7, Op = set_op\<rparr> True
          (peer_doer emptied_store lm2log_New [])) =
     Returns (Some (internal (Some ErrNotFound) StatusInternalServerError)) \<and>
   Do colon_json \<lparr>Version = 7, Op = set_op\<rparr> True solo_doer =
     (case Do_write colon_json \<lparr>Version = 1, Op = set_op\<rparr> solo_doer of
        (Fatal, d1) \<Rightarrow> (Fatal, d1)
      | (Returns r, d1) \<Rightarrow>
          (Returns r,
           d1\<lparr>doer_commitLog :=
                Log_UnlockResources (Op \<lparr>Version = 7, Op = set_op\<rparr>) (doer_commitLog d1)\<rparr>))"
proof -
  let ?A = "NewLog None accepting_service () True"
  let ?E = "NewLog (Some emptied_store) accepting_service () True"
  let ?e = "internal (Some ErrNotFound) StatusInternalServerError"
  let ?p = "\<lparr>Version = 7, Op = set_op\<rparr>"
  have a0: "committed (commitLog ?A) = 0" by (simp add: NewLog_def lm2log_New_def)
  have e0: "committed (commitLog ?E) \<noteq> 0"
    by (simp add: NewLog_def emptied_store_def lm2log_Compact_def committed_store_def)
  have ee: "snd (Log_Committed colon_json ?E) = Some ?e"
    by (simp add: Log_Committed_cases NewLog_def emptied_store_def lm2log_Compact_def
        committed_store_def)
  note T = Committed_nil_Err_decides [where J = colon_json]
  note t1 = T [where l = ?A, THEN conjunct1, THEN mp, OF a0]
  note t2 = T [where l = ?E and e = ?e, THEN conjunct2, THEN conjunct1, THEN mp, THEN mp,
      OF e0 ee]
  have lockE: "Log_LockResources (Op ?p) (doer_commitLog (peer_doer emptied_store lm2log_New []))
                 = (None, ?E)"
    by (simp add: Log_LockResources_def peer_doer_def NewLog_def accepting_service_def)
  note t3 = T [where d = "peer_doer emptied_store lm2log_New []" and p = ?p and ?l1.0 = ?E
      and e = ?e and ignoreVersion = True, THEN conjunct2, THEN conjunct2, THEN mp, THEN mp,
      OF lockE ee]
  have lockA: "Log_LockResources (Op ?p) (doer_commitLog solo_doer) = (None, ?A)"
    by (simp add: Log_LockResources_def solo_doer_def NewLog_def accepting_service_def)
  have ea: "snd (Log_Committed colon_json ?A) = Some (internal None StatusNotFound)"
    by (simp add: Log_Committed_cases a0)
  note t4 = T [where d = solo_doer and p = ?p and ?l1.0 = ?A
      and e = "internal None StatusNotFound" and ignoreVersion = True,
      THEN conjunct2, THEN conjunct2, THEN mp, THEN mp, OF lockA ea]
  have s: "solo_doer\<lparr>doer_commitLog := ?A\<rparr> = solo_doer" by (simp add: solo_doer_def)
  from t3 have r3: "fst (Do colon_json ?p True (peer_doer emptied_store lm2log_New [])) =
      Returns (Some ?e)"
    by (simp add: internal_def)
  from t4 s have r4: "Do colon_json ?p True solo_doer =
     (case Do_write colon_json \<lparr>Version = 1, Op = set_op\<rparr> solo_doer of
        (Fatal, d1) \<Rightarrow> (Fatal, d1)
      | (Returns r, d1) \<Rightarrow>
          (Returns r,
           d1\<lparr>doer_commitLog :=
                Log_UnlockResources (Op \<lparr>Version = 7, Op = set_op\<rparr>) (doer_commitLog d1)\<rparr>))"
    by (simp add: internal_def)
  from t1 ee t2 r3 r4 show ?thesis by blast
qed

section \<open>Facts about the background sync loop\<close>

lemma syncPeer_push_keeps_peerInSync:
  "peerInSync (snd (syncPeer_push J c i n sleep d)) = peerInSync d"
proof (induction J c i n sleep d rule: syncPeer_push.induct)
  case (1 J c i n sleep d)
  show ?case
  proof (cases "i \<noteq> n")
    case False
    then show ?thesis by (subst syncPeer_push.simps) simp
  next
    case True
    obtain payload rerr where R: "Log_Record J (i + 1) (doer_commitLog d) = (payload, rerr)"
      by (cases "Log_Record J (i + 1) (doer_commitLog d)")
    show ?thesis
    proof (cases rerr)
      case (Some e)
      with True R "1.IH"(4) [OF True R [symmetric] Some] show ?thesis
        by (simp add: syncPeer_push.simps [of J c i n sleep d])
    next
      case None
      obtain perr d1 where P: "peer_Prepare c payload d = (perr, d1)"
        by (cases "peer_Prepare c payload d")
      then have k1: "peerInSync d1 = peerInSync d"
        using peer_Prepare_keeps(3) [of c payload d] by simp
      show ?thesis
      proof (cases perr)
        case (Some e)
        with True R None P k1 "1.IH"(3) [OF True R [symmetric] None P [symmetric] Some]
        show ?thesis
          by (simp add: syncPeer_push.simps [of J c i n sleep d])
      next
        case pNone: None
        obtain cerr d2 where C: "peer_Commit c d1 = (cerr, d2)"
          by (cases "peer_Commit c d1")
        then have k2: "peerInSync d2 = peerInSync d1"
          using peer_Commit_keeps(3) [of c d1] by simp
        show ?thesis
        proof (cases cerr)
          case (Some e)
          with True R None P pNone C k1 k2
            "1.IH"(2) [OF True R [symmetric] None P [symmetric] pNone C [symmetric] Some]
          show ?thesis
            by (simp add: syncPeer_push.simps [of J c i n sleep d])
        next
          case cNone: None
          with True R None P pNone C k1 k2
            "1.IH"(1) [OF True R [symmetric] None P [symmetric] pNone C [symmetric] cNone]
          show ?thesis
            by (simp add: syncPeer_push.simps [of J c i n sleep d])
        qed
      qed
    qed
  qed
qed

text \<open>
  Claim C2: in an iteration of the sync loop that finds the peer behind, a failure of
  the record fetch, of \<^verbatim>\<open>peer.Prepare\<close> or of \<^verbatim>\<open>peer.Commit\<close> makes the loop
  sleep and restart from a fresh read of the peer's committed version, without going on
  to later versions. In the code each \<^verbatim>\<open>continue\<close> of the catch-up loop belongs to that
  inner loop, so it goes on with the next version. Here the local log has versions 1 and
  2 committed, the peer has nothing committed, and the request of
  \<^verbatim>\<open>peer.Prepare\<close> for version 1 is lost: in the same iteration, with no new read of
  the peer's committed version, the loop calls \<^verbatim>\<open>peer.Prepare\<close> for version 2 (which
  the peer refuses with status 400), and only then ends with \<^verbatim>\<open>sleep\<close> set and
  \<^verbatim>\<open>peerInSync\<close> still false.
\<close>

theorem syncPeer_goes_on_after_failed_push:
  "fst (syncPeer_iteration colon_json (remote_client colon_json)
          ((peer_doer (committed_store 2) lm2log_New [False, False, True])
             \<lparr>peerInSync := False\<rparr>)) = True \<and>
   peerInSync (snd (syncPeer_iteration colon_json (remote_client colon_json)
          ((peer_doer (committed_store 2) lm2log_New [False, False, True])
             \<lparr>peerInSync := False\<rparr>))) = False \<and>
   peer_calls (snd (syncPeer_iteration colon_json (remote_client colon_json)
          ((peer_doer (committed_store 2) lm2log_New [False, False, True])
             \<lparr>peerInSync := False\<rparr>))) =
     [(PostRollback, None),
      (GetCommit, Some ErrNotFound),
      (PostPrepare \<lparr>Version = 1, Op = set_op\<rparr>, Some (ErrorString ''request failed'')),
      (PostPrepare \<lparr>Version = 2, Op = set_op\<rparr>, Some (ServerError StatusBadRequest))]"
proof -
  let ?c = "remote_client colon_json :: unit remote LogClient"
  let ?L = "NewLog (Some (committed_store 2)) accepting_service () True"
  let ?R = "NewLog (Some lm2log_New) accepting_service () True"
  let ?d0 = "(peer_doer (committed_store 2) lm2log_New [False, False, True])
               \<lparr>peerInSync := False\<rparr>"
  let ?p1 = "\<lparr>Version = 1, Op = set_op\<rparr>"
  let ?p2 = "\<lparr>Version = 2, Op = set_op\<rparr>"
  let ?d2 = "?d0\<lparr>peer_world := \<lparr>remote_log = ?R, faults = [True]\<rparr>,
                  peer_calls := [(PostRollback, None), (GetCommit, Some ErrNotFound)]\<rparr>"
  let ?d3 = "?d2\<lparr>peer_world := \<lparr>remote_log = ?R, faults = []\<rparr>,
                  peer_calls := [(PostRollback, None), (GetCommit, Some ErrNotFound),
                                 (PostPrepare ?p1, Some (ErrorString ''request failed''))]\<rparr>"
  let ?d4 = "?d3\<lparr>peer_calls := [(PostRollback, None), (GetCommit, Some ErrNotFound),
                                 (PostPrepare ?p1, Some (ErrorString ''request failed'')),
                                 (PostPrepare ?p2, Some (ServerError StatusBadRequest))]\<rparr>"
  have rb: "peer_Rollback ?c ?d0 =
              (None, ?d0\<lparr>peer_world := \<lparr>remote_log = ?R, faults = [False, True]\<rparr>,
                         peer_calls := [(PostRollback, None)]\<rparr>)"
    by (simp add: peer_Rollback_def LogClient_Rollback_def remote_client_def
        remote_doRequest_def Service_route_def lm2log_Rollback_def peer_doer_def NewLog_def
        lm2log_New_def)
  have cm: "peer_Committed ?c
              (?d0\<lparr>peer_world := \<lparr>remote_log = ?R, faults = [False, True]\<rparr>,
                    peer_calls := [(PostRollback, None)]\<rparr>) =
              ((zero_LogPayload, Some ErrNotFound), ?d2)"
    by (simp add: peer_Committed_def LogClient_Committed_def remote_client_def
        remote_doRequest_def Service_route_def Log_Committed_cases internal_def
        error_response_def peer_doer_def NewLog_def lm2log_New_def)
  have lc: "Log_Committed colon_json (doer_commitLog ?d2) = (?p2, None)"
    by (simp add: Log_Committed_cases peer_doer_def NewLog_def committed_store_def
        colon_json_def set_op_def)
  have r1: "Log_Record colon_json (0 + 1) (doer_commitLog ?d2) = (?p1, None)"
    and r2: "Log_Record colon_json (1 + 1) (doer_commitLog ?d3) = (?p2, None)"
    by (simp_all add: Log_Record_def lm2log_Get_def peer_doer_def NewLog_def
        committed_store_def colon_json_def set_op_def)
  have p1: "peer_Prepare ?c ?p1 ?d2 = (Some (ErrorString ''request failed''), ?d3)"
    by (simp add: peer_Prepare_def LogClient_Prepare_def remote_client_def
        remote_doRequest_def)
  have p2: "peer_Prepare ?c ?p2 ?d3 = (Some (ServerError StatusBadRequest), ?d4)"
    by (simp add: peer_Prepare_def LogClient_Prepare_def remote_client_def
        remote_doRequest_def Service_route_def Log_Prepare_cases NewLog_def lm2log_New_def
        internal_def Let_def)
  have push: "syncPeer_push colon_json ?c 0 2 False ?d2 = (True, ?d4)"
    using r1 r2 p1 p2
    by (simp add: syncPeer_push.simps [of _ _ 0] syncPeer_push.simps [of _ _ 1]
        syncPeer_push.simps [of _ _ 2])
  have "syncPeer_iteration colon_json ?c ?d0 = (True, ?d4)"
    using rb cm lc push by (simp add: syncPeer_iteration_def zero_LogPayload_def)
  then show ?thesis by simp
qed

section \<open>Facts about a peer that is another commit log\<close>





















section \<open>Facts about the startup reconciliation\<close>

lemma rpc_failed_simps [simp]:
  "rpc_failed (req, None) = False"
  "rpc_failed (PostPrepare p, Some e) = True"
  "rpc_failed (PostCommit, Some e) = True"
  "rpc_failed (PostRollback, Some e) = True"
  "rpc_failed (GetRecord v, Some e) = True"
  "rpc_failed (GetCommit, Some e) = (e \<noteq> ErrNotFound)"
  "rpc_failed (GetPrepare, Some e) = (e \<noteq> ErrNotFound)"
  by (simp_all add: rpc_failed_def)












end
